theory Spec2Isabelle
  imports Complex_Main
begin

section \<open>JavaScript values\<close>

text \<open>
  A JavaScript number is a finite value, NaN or one of the two infinities. Finite values
  are carried as rationals (every finite double is one; \<open>0\<close> and \<open>-0\<close> are not told
  apart). Rounding of binary64 arithmetic is not modelled: sums of finite numbers are exact.
\<close>

datatype jsnum = Fin rat | NaN | PosInf | NegInf

text \<open>
  The values that flow through the proxy: what \<open>JSON.parse\<close> and \<open>express.json\<close> produce,
  and \<open>undefined\<close>. An object is an association list; the first binding of a key is the
  property's value.
\<close>

datatype js =
    JUndefined
  | JNull
  | JBool bool
  | JNum jsnum
  | JStr string
  | JArr "js list"
  | JObj "(string \<times> js) list"

datatype jstype = TUndefined | TObject | TBoolean | TNumber | TString

datatype error = TypeError | SyntaxError | DbError | NetworkError

fun typeof :: "js \<Rightarrow> jstype" where
  "typeof JUndefined = TUndefined"
| "typeof JNull = TObject"
| "typeof (JBool _) = TBoolean"
| "typeof (JNum _) = TNumber"
| "typeof (JStr _) = TString"
| "typeof (JArr _) = TObject"
| "typeof (JObj _) = TObject"

text \<open>ToBoolean: \<open>undefined\<close>, \<open>null\<close>, \<open>false\<close>, \<open>0\<close>, \<open>NaN\<close> and \<open>""\<close> are falsy.\<close>

fun truthy :: "js \<Rightarrow> bool" where
  "truthy JUndefined = False"
| "truthy JNull = False"
| "truthy (JBool b) = b"
| "truthy (JNum (Fin r)) = (r \<noteq> 0)"
| "truthy (JNum NaN) = False"
| "truthy (JNum _) = True"
| "truthy (JStr s) = (s \<noteq> [])"
| "truthy (JArr _) = True"
| "truthy (JObj _) = True"

text \<open>
  Property read \<open>v.k\<close>. Reading a property of \<open>undefined\<close> or \<open>null\<close> throws a TypeError.
  The program only reads the keys \<open>total_tokens\<close>, \<open>input_tokens\<close>, \<open>output_tokens\<close>,
  \<open>usage\<close>, \<open>message\<close>, \<open>content\<close>, \<open>type\<close>, \<open>name\<close>, \<open>input\<close>, \<open>stream\<close>, \<open>model\<close>,
  \<open>messages\<close>, \<open>tools\<close>, \<open>temperature\<close> and \<open>max_tokens\<close>; none of them is defined on a
  primitive, on an array or on \<open>Object.prototype\<close>, so there the read gives \<open>undefined\<close>.
\<close>

fun get_prop :: "js \<Rightarrow> string \<Rightarrow> error + js" where
  "get_prop JUndefined k = Inl TypeError"
| "get_prop JNull k = Inl TypeError"
| "get_prop (JObj kvs) k = Inr (case map_of kvs k of None \<Rightarrow> JUndefined | Some v \<Rightarrow> v)"
| "get_prop _ k = Inr JUndefined"

text \<open>Optional chaining \<open>v?.k\<close>: \<open>undefined\<close> when \<open>v\<close> is \<open>undefined\<close> or \<open>null\<close>; it never throws.\<close>

fun opt_prop :: "js \<Rightarrow> string \<Rightarrow> js" where
  "opt_prop (JObj kvs) k = (case map_of kvs k of None \<Rightarrow> JUndefined | Some v \<Rightarrow> v)"
| "opt_prop _ k = JUndefined"

text \<open>The operator \<open>+\<close> on two numbers.\<close>

fun js_add :: "jsnum \<Rightarrow> jsnum \<Rightarrow> jsnum" where
  "js_add (Fin a) (Fin b) = Fin (a + b)"
| "js_add NaN _ = NaN"
| "js_add _ NaN = NaN"
| "js_add PosInf NegInf = NaN"
| "js_add NegInf PosInf = NaN"
| "js_add PosInf _ = PosInf"
| "js_add _ PosInf = PosInf"
| "js_add NegInf _ = NegInf"
| "js_add _ NegInf = NegInf"

text \<open>\<open>typeof v === "number" && isFinite(v)\<close>\<close>

fun finite_number :: "js \<Rightarrow> bool" where
  "finite_number (JNum (Fin _)) = True"
| "finite_number _ = False"

text \<open>\<open>a || b\<close> and \<open>a ?? b\<close>\<close>

definition js_or :: "js \<Rightarrow> js \<Rightarrow> js" where
  "js_or a b = (if truthy a then a else b)"

definition nullish :: "js \<Rightarrow> js \<Rightarrow> js" where
  "nullish a b = (if a = JUndefined \<or> a = JNull then b else a)"

text \<open>A number from an integer.\<close>

definition num :: "int \<Rightarrow> js" where
  "num i = JNum (Fin (of_int i))"

text \<open>
  \<open>{...obj, k: v}\<close>: the key keeps its place when \<open>obj\<close> has it, and is added at the
  end otherwise.
\<close>

fun set_prop :: "(string \<times> js) list \<Rightarrow> string \<Rightarrow> js \<Rightarrow> (string \<times> js) list" where
  "set_prop [] k v = [(k, v)]"
| "set_prop ((k', v') # kvs) k v = (if k' = k then (k, v) # kvs else (k', v') # set_prop kvs k v)"

text \<open>\<open>typeof v === "number" ? v : 0\<close>\<close>

fun number_or_zero :: "js \<Rightarrow> jsnum" where
  "number_or_zero (JNum n) = n"
| "number_or_zero _ = Fin 0"



section \<open>Usage extractor\<close>

text \<open>
  \<^verbatim>\<open>
  calculateTokens(usage) {
    if (!usage || typeof usage !== "object") return 0;
    const total = usage.total_tokens;
    if (typeof total === "number" && isFinite(total)) return total;
    const input = typeof usage.input_tokens === "number" ? usage.input_tokens : 0;
    const output = typeof usage.output_tokens === "number" ? usage.output_tokens : 0;
    return input + output;
  }
  \<close>
\<close>

definition calculateTokens :: "js \<Rightarrow> error + js" where
  "calculateTokens usage =
     (if \<not> truthy usage \<or> typeof usage \<noteq> TObject then Inr (JNum (Fin 0))
      else case get_prop usage ''total_tokens'' of
        Inl e \<Rightarrow> Inl e
      | Inr tot \<Rightarrow>
          if finite_number tot then Inr tot
          else case get_prop usage ''input_tokens'' of
            Inl e \<Rightarrow> Inl e
          | Inr i \<Rightarrow>
             (case get_prop usage ''output_tokens'' of
                Inl e \<Rightarrow> Inl e
              | Inr out \<Rightarrow> Inr (JNum (js_add (number_or_zero i) (number_or_zero out)))))"

section \<open>Strings\<close>

text \<open>
  A JavaScript string is modelled by a \<open>string\<close> whose characters are its code units;
  the model covers texts whose code units are below 256. Of the characters that
  \<open>String.prototype.trim\<close> removes, those in that range are TAB, LF, VT, FF, CR, SPACE and
  NBSP.
\<close>

definition newline :: char where
  "newline = CHR 0x0A"

definition is_ws :: "char \<Rightarrow> bool" where
  "is_ws c = (c \<in> set [CHR 0x09, CHR 0x0A, CHR 0x0B, CHR 0x0C, CHR 0x0D, CHR 0x20, CHR 0xA0])"

definition trim :: "string \<Rightarrow> string" where
  "trim s = rev (dropWhile is_ws (rev (dropWhile is_ws s)))"

definition startsWith :: "string \<Rightarrow> string \<Rightarrow> bool" where
  "startsWith s p = (take (length p) s = p)"

definition endsWith :: "string \<Rightarrow> string \<Rightarrow> bool" where
  "endsWith s p = (length p \<le> length s \<and> drop (length s - length p) s = p)"

text \<open>\<open>s.split("\n")\<close>: the pieces between line feeds; the result is never empty.\<close>

fun split_lines :: "string \<Rightarrow> string list" where
  "split_lines [] = [[]]"
| "split_lines (c # cs) =
     (if c = newline then [] # split_lines cs
      else (case split_lines cs of
              [] \<Rightarrow> [[c]]
            | l # ls \<Rightarrow> (c # l) # ls))"

text \<open>\<open>s.split("\n\n")\<close>: the pieces between leftmost, non-overlapping blank-line separators.\<close>

fun split_records :: "string \<Rightarrow> string list" where
  "split_records [] = [[]]"
| "split_records [c] = [[c]]"
| "split_records (c # d # cs) =
     (if c = newline \<and> d = newline then [] # split_records cs
      else (case split_records (d # cs) of
              [] \<Rightarrow> [[c]]
            | l # ls \<Rightarrow> (c # l) # ls))"

text \<open>\<open>parts.join("\n")\<close>\<close>

fun join_lines :: "string list \<Rightarrow> string" where
  "join_lines [] = []"
| "join_lines [p] = p"
| "join_lines (p # q # ps) = p @ newline # join_lines (q # ps)"

section \<open>The JSON built-ins\<close>

text \<open>
  \<open>JSON.parse\<close> and \<open>JSON.stringify\<close> belong to the language, not to the program: they are
  parameters of the model. \<open>JSON_parse v\<close> is \<open>JSON.parse(v)\<close> (the argument is converted to
  a string by the built-in itself) and is \<open>Inl SyntaxError\<close> where the built-in throws;
  \<open>JSON_stringify v\<close> is the text, or \<open>undefined\<close> for \<open>undefined\<close>.
\<close>

text \<open>
  What the proxy sends to the upstream API with \<open>fetch\<close>, and what \<open>fetch\<close> resolves to:
  the status, the response headers, the body read as JSON (\<open>Inl\<close> where \<open>.json()\<close>
  rejects) and the body read as a stream of chunks.
\<close>

record outgoing =
  out_headers :: "(string \<times> js) list"
  out_body :: js

record upstream_response =
  status :: nat
  resp_headers :: "(string \<times> string) list"
  json :: "error + js"
  chunks :: "string list"

text \<open>
  The rest of the environment: \<open>fetch\<close> (\<open>Inl\<close> where the call rejects),
  \<open>process.env.ANTHROPIC_API_KEY\<close>, the identifiers that successive calls of \<open>uuidv4()\<close>
  return, the times that successive calls of \<open>Date.now()\<close> return, and the \<open>message\<close>
  property of an error.
\<close>

record env =
  JSON_parse :: "js \<Rightarrow> error + js"
  JSON_stringify :: "js \<Rightarrow> js"
  fetch :: "outgoing \<Rightarrow> error + upstream_response"
  ANTHROPIC_API_KEY :: js
  uuid :: "nat \<Rightarrow> string"
  clock :: "nat \<Rightarrow> int"
  message :: "error \<Rightarrow> string"

section \<open>SSE reassembler\<close>

text \<open>
  \<^verbatim>\<open>
  parseStreamingResponse(fullResponse) {
    try {
      const lines = fullResponse.split("\n").map((line) => line.trim()).filter(Boolean);
      const lastJsonLine = lines.reverse()
        .find((line) => line.startsWith("{") && line.endsWith("}"));
      return lastJsonLine ? JSON.parse(lastJsonLine) : null;
    } catch (_e) { return null; }
  }
  \<close>
\<close>

definition nonempty_lines :: "string \<Rightarrow> string list" where
  "nonempty_lines fullResponse = filter (\<lambda>line. line \<noteq> []) (map trim (split_lines fullResponse))"

definition braced :: "string \<Rightarrow> bool" where
  "braced line = (startsWith line ''{'' \<and> endsWith line ''}'')"

definition lastJsonLine :: "string \<Rightarrow> string option" where
  "lastJsonLine fullResponse = find braced (rev (nonempty_lines fullResponse))"

text \<open>The body of the \<open>try\<close> block; \<open>Inl\<close> is an exception thrown inside it.\<close>

definition parseStreamingResponse_try :: "env \<Rightarrow> string \<Rightarrow> error + js" where
  "parseStreamingResponse_try E fullResponse =
     (case lastJsonLine fullResponse of
        None \<Rightarrow> Inr JNull
      | Some line \<Rightarrow> JSON_parse E (JStr line))"

definition parseStreamingResponse :: "env \<Rightarrow> string \<Rightarrow> error + js" where
  "parseStreamingResponse E fullResponse =
     (case parseStreamingResponse_try E fullResponse of
        Inl _ \<Rightarrow> Inr JNull
      | Inr v \<Rightarrow> Inr v)"

text \<open>
  \<open>extractUsageFromSSE\<close>: the inner loop over the lines of one record keeps the last event
  name and collects the data lines.
\<close>

fun scan_lines :: "string list \<Rightarrow> js \<Rightarrow> string list \<Rightarrow> js \<times> string list" where
  "scan_lines [] evt dataParts = (evt, dataParts)"
| "scan_lines (line # rest) evt dataParts =
     (let t = trim line in
      if t = [] then scan_lines rest evt dataParts
      else if startsWith t ''event:'' then scan_lines rest (JStr (trim (drop 6 t))) dataParts
      else if startsWith t ''data:'' then scan_lines rest evt (dataParts @ [trim (drop 5 t)])
      else scan_lines rest evt dataParts)"

text \<open>
  \<open>if (parsed && typeof parsed === "object" && parsed.usage) usage = parsed.usage;\<close>
  The result is the new value of \<open>usage\<close>.
\<close>

definition delta_usage :: "js \<Rightarrow> js \<Rightarrow> error + js" where
  "delta_usage parsed usage =
     (if truthy parsed \<and> typeof parsed = TObject then
        (case get_prop parsed ''usage'' of
           Inl e \<Rightarrow> Inl e
         | Inr u \<Rightarrow> Inr (if truthy u then u else usage))
      else Inr usage)"

text \<open>
  \<open>if (parsed && typeof parsed === "object" && parsed.message &&
       typeof parsed.message === "object" && parsed.message.usage)
     usage = parsed.message.usage;\<close>
\<close>

definition start_usage :: "js \<Rightarrow> js \<Rightarrow> error + js" where
  "start_usage parsed usage =
     (if truthy parsed \<and> typeof parsed = TObject then
        (case get_prop parsed ''message'' of
           Inl e \<Rightarrow> Inl e
         | Inr m \<Rightarrow>
             if truthy m \<and> typeof m = TObject then
               (case get_prop m ''usage'' of
                  Inl e \<Rightarrow> Inl e
                | Inr u \<Rightarrow> Inr (if truthy u then u else usage))
             else Inr usage)
      else Inr usage)"

text \<open>One pass of the outer loop: the value of \<open>usage\<close> after the record \<open>rec\<close>.\<close>

definition scan_record :: "env \<Rightarrow> string \<Rightarrow> js \<Rightarrow> js" where
  "scan_record E rec usage =
     (if rec = [] then usage
      else
        let (evt, dataParts) = scan_lines (split_lines rec) JNull [] in
        if evt \<noteq> JStr ''message_delta'' \<and> evt \<noteq> JStr ''message_start'' then usage
        else
          (case JSON_parse E (JStr (join_lines dataParts)) of
             Inl _ \<Rightarrow> usage
           | Inr parsed \<Rightarrow>
               (case (if evt = JStr ''message_delta'' then delta_usage parsed usage
                      else start_usage parsed usage) of
                  Inl _ \<Rightarrow> usage
                | Inr u \<Rightarrow> u)))"

fun scan_records :: "env \<Rightarrow> string list \<Rightarrow> js \<Rightarrow> js" where
  "scan_records E [] usage = usage"
| "scan_records E (rec # recs) usage = scan_records E recs (scan_record E rec usage)"

definition extractUsageFromSSE :: "env \<Rightarrow> string \<Rightarrow> error + js" where
  "extractUsageFromSSE E sse = Inr (scan_records E (split_records sse) JNull)"

section \<open>Reading stored bodies\<close>

text \<open>
  \<^verbatim>\<open>
  function safeParseJSON(maybeJSON) {
    if (!maybeJSON) return null;
    if (typeof maybeJSON !== "string") return maybeJSON;
    if (maybeJSON.trim().startsWith("event:")) return maybeJSON;
    try { return JSON.parse(maybeJSON); } catch (_e) { return maybeJSON; }
  }
  \<close>
\<close>

definition safeParseJSON :: "env \<Rightarrow> js \<Rightarrow> js" where
  "safeParseJSON E maybeJSON =
     (if \<not> truthy maybeJSON then JNull
      else case maybeJSON of
        JStr s \<Rightarrow>
          if startsWith (trim s) ''event:'' then maybeJSON
          else (case JSON_parse E maybeJSON of Inl _ \<Rightarrow> maybeJSON | Inr v \<Rightarrow> v)
      | _ \<Rightarrow> maybeJSON)"

text \<open>
  The variant of \<open>src/proxy/server.js\<close>:
  \<^verbatim>\<open>
  function safeParseJSON(maybeJSON) {
    try { return JSON.parse(maybeJSON); } catch (_e) { return null; }
  }
  \<close>
\<close>

definition safeParseJSON_legacy :: "env \<Rightarrow> js \<Rightarrow> js" where
  "safeParseJSON_legacy E maybeJSON =
     (case JSON_parse E maybeJSON of Inl _ \<Rightarrow> JNull | Inr v \<Rightarrow> v)"

section \<open>Trace store and process state\<close>

text \<open>
  The storage engine is used through \<open>prepare\<close>/\<open>run\<close>/\<open>get\<close>/\<open>all\<close>/\<open>exec\<close> only. A
  table is the list of its rows in insertion order; a row is the object that \<open>SELECT *\<close>
  gives back, holding the values bound by the \<open>INSERT\<close> and the column defaults. Whether a
  statement succeeds is the engine's matter (binding, constraints, I/O): the outcomes of
  the coming statements are given by a schedule, and a statement with no scheduled outcome
  succeeds. \<open>Failed\<close>: the statement throws and changes nothing. \<open>Aborted\<close>: the statement
  throws and the engine has rolled the open transaction back by itself.
\<close>

datatype table = Sessions | Requests | Responses | ToolCalls

datatype outcome = Done | Failed | Aborted

datatype sql = Pragma_foreign_keys | Begin | Delete_from table | Commit | Vacuum | Rollback

text \<open>
  The state of the process: the tables, the snapshot taken by \<open>BEGIN\<close> while a transaction
  is open, the last id given to a tool call, \<open>this.currentSessionId\<close>, the messages
  broadcast so far (each open client is sent \<open>JSON.stringify\<close> of them, in this order), the
  lines written with \<open>console.error\<close>, the calls made to upstream, the schedule of statement
  outcomes, and how many identifiers and clock readings have been taken.
\<close>

record tracer =
  rows :: "table \<Rightarrow> js list"
  txn :: "(table \<Rightarrow> js list) option"
  tool_seq :: nat
  currentSessionId :: js
  sent :: "js list"
  logged :: "string list"
  forwarded :: "outgoing list"
  outcomes :: "outcome list"
  uuids :: nat
  ticks :: nat

type_synonym 'a result = "(error + 'a) \<times> tracer"

definition and_then :: "'a result \<Rightarrow> ('a \<Rightarrow> tracer \<Rightarrow> 'b result) \<Rightarrow> 'b result" where
  "and_then r f = (case r of (Inl e, st) \<Rightarrow> (Inl e, st) | (Inr v, st) \<Rightarrow> f v st)"

definition try_catch :: "'a result \<Rightarrow> (error \<Rightarrow> tracer \<Rightarrow> 'a result) \<Rightarrow> 'a result" where
  "try_catch r h = (case r of (Inl e, st) \<Rightarrow> h e st | (Inr v, st) \<Rightarrow> (Inr v, st))"

definition uuidv4 :: "env \<Rightarrow> tracer \<Rightarrow> js \<times> tracer" where
  "uuidv4 E st = (JStr (uuid E (uuids st)), st\<lparr>uuids := Suc (uuids st)\<rparr>)"

definition Date_now :: "env \<Rightarrow> tracer \<Rightarrow> int \<times> tracer" where
  "Date_now E st = (clock E (ticks st), st\<lparr>ticks := Suc (ticks st)\<rparr>)"

definition console_error :: "string \<Rightarrow> tracer \<Rightarrow> tracer" where
  "console_error line st = st\<lparr>logged := logged st @ [line]\<rparr>"

text \<open>
  \<^verbatim>\<open>
  broadcast(message) {
    const data = JSON.stringify(message);
    this.clients.forEach((client) => {
      if (client.readyState === WEBSOCKET_READY_STATE_OPEN) client.send(data);
    });
  }
  \<close>
\<close>

definition broadcast :: "js \<Rightarrow> tracer \<Rightarrow> tracer" where
  "broadcast msg st = st\<lparr>sent := sent st @ [msg]\<rparr>"

definition take_outcome :: "tracer \<Rightarrow> outcome \<times> tracer" where
  "take_outcome st =
     (case outcomes st of
        [] \<Rightarrow> (Done, st)
      | oc # rest \<Rightarrow> (oc, st\<lparr>outcomes := rest\<rparr>))"

definition rolled_back :: "tracer \<Rightarrow> tracer" where
  "rolled_back st =
     (case txn st of
        None \<Rightarrow> st
      | Some snapshot \<Rightarrow> st\<lparr>rows := snapshot, txn := None\<rparr>)"

text \<open>\<open>statement.run(...)\<close> of a prepared \<open>INSERT\<close>.\<close>

definition run_insert :: "table \<Rightarrow> js \<Rightarrow> tracer \<Rightarrow> unit result" where
  "run_insert t row st =
     (let (oc, st1) = take_outcome st in
      case oc of
        Done \<Rightarrow> (Inr (), st1\<lparr>rows := (rows st1)(t := rows st1 t @ [row])\<rparr>)
      | Failed \<Rightarrow> (Inl DbError, st1)
      | Aborted \<Rightarrow> (Inl DbError, rolled_back st1))"

text \<open>
  \<open>db.exec(...)\<close> of the statements of the clear operation. \<open>BEGIN\<close> inside a transaction,
  and \<open>COMMIT\<close>, \<open>ROLLBACK\<close> and \<open>VACUUM\<close> in the wrong transaction state, are errors of
  the engine. \<open>ROLLBACK\<close> is not subject to the schedule: as the engine documents it, a
  \<open>ROLLBACK\<close> of an open transaction restores the snapshot, and a \<open>ROLLBACK\<close> with no open
  transaction (the engine has rolled back by itself already) is an error that changes
  nothing.
\<close>

definition exec_done :: "sql \<Rightarrow> tracer \<Rightarrow> unit result" where
  "exec_done q st =
     (case q of
        Pragma_foreign_keys \<Rightarrow> (Inr (), st)
      | Begin \<Rightarrow>
          (case txn st of
             None \<Rightarrow> (Inr (), st\<lparr>txn := Some (rows st)\<rparr>)
           | Some _ \<Rightarrow> (Inl DbError, st))
      | Delete_from t \<Rightarrow> (Inr (), st\<lparr>rows := (rows st)(t := [])\<rparr>)
      | Commit \<Rightarrow>
          (case txn st of
             None \<Rightarrow> (Inl DbError, st)
           | Some _ \<Rightarrow> (Inr (), st\<lparr>txn := None\<rparr>))
      | Vacuum \<Rightarrow>
          (case txn st of
             None \<Rightarrow> (Inr (), st)
           | Some _ \<Rightarrow> (Inl DbError, st))
      | Rollback \<Rightarrow>
          (case txn st of
             None \<Rightarrow> (Inl DbError, st)
           | Some snapshot \<Rightarrow> (Inr (), st\<lparr>rows := snapshot, txn := None\<rparr>)))"

definition exec :: "sql \<Rightarrow> tracer \<Rightarrow> unit result" where
  "exec q st =
     (if q = Rollback then exec_done q st
      else
        let (oc, st1) = take_outcome st in
        case oc of
          Done \<Rightarrow> exec_done q st1
        | Failed \<Rightarrow> (Inl DbError, st1)
        | Aborted \<Rightarrow> (Inl DbError, rolled_back st1))"

text \<open>Consecutive \<open>db.exec\<close> calls: the first one that throws ends the sequence.\<close>

fun exec_all :: "sql list \<Rightarrow> tracer \<Rightarrow> unit result" where
  "exec_all [] st = (Inr (), st)"
| "exec_all (q # qs) st = and_then (exec q st) (\<lambda>_. exec_all qs)"

text \<open>The rows written by the prepared statements of \<open>setupStatements\<close>.\<close>

definition request_row :: "js \<Rightarrow> js \<Rightarrow> js \<Rightarrow> js \<Rightarrow> js \<Rightarrow> js \<Rightarrow> js \<Rightarrow> js \<Rightarrow> js" where
  "request_row rid session_id ts method endpoint hdrs bdy strm =
     JObj [(''id'', rid), (''session_id'', session_id), (''timestamp'', ts),
           (''method'', method), (''endpoint'', endpoint), (''headers'', hdrs),
           (''body'', bdy), (''stream'', strm)]"

definition response_row :: "js \<Rightarrow> js \<Rightarrow> js \<Rightarrow> js \<Rightarrow> js \<Rightarrow> js \<Rightarrow> js \<Rightarrow> js \<Rightarrow> js" where
  "response_row rid request_id ts stat hdrs bdy latency tokens_used =
     JObj [(''id'', rid), (''request_id'', request_id), (''timestamp'', ts),
           (''status'', stat), (''headers'', hdrs), (''body'', bdy),
           (''latency'', latency), (''tokens_used'', tokens_used)]"

definition tool_call_row :: "nat \<Rightarrow> js \<Rightarrow> js \<Rightarrow> js \<Rightarrow> js \<Rightarrow> js" where
  "tool_call_row n request_id tool_name inp ts =
     JObj [(''id'', num (int n)), (''request_id'', request_id), (''tool_name'', tool_name),
           (''input'', inp), (''output'', JNull), (''timestamp'', ts)]"

definition session_row :: "js \<Rightarrow> js \<Rightarrow> js" where
  "session_row sid started_at =
     JObj [(''id'', sid), (''started_at'', started_at), (''ended_at'', JNull),
           (''project_name'', JNull), (''total_requests'', num 0), (''total_tokens'', num 0)]"

section \<open>Session manager\<close>

text \<open>
  \<^verbatim>\<open>
  createSession() {
    this.currentSessionId = uuidv4();
    this.stmts.insertSession.run(this.currentSessionId, Date.now());
  }
  \<close>
\<close>

definition createSession :: "env \<Rightarrow> tracer \<Rightarrow> unit result" where
  "createSession E st =
     (let (sid, st1) = uuidv4 E st;
          st2 = st1\<lparr>currentSessionId := sid\<rparr>;
          (now, st3) = Date_now E st2
      in run_insert Sessions (session_row sid (num now)) st3)"

section \<open>Capture pipeline\<close>

text \<open>
  An inbound call as the handlers see it: \<open>req.headers\<close> (names in lower case) and
  \<open>req.body\<close> as parsed by the \<open>express.json\<close> middleware. What the caller receives is
  either one JSON response with a status, or the chunks written to an event stream.
\<close>

record request =
  headers :: "(string \<times> string) list"
  body :: js

datatype reply = JsonReply nat js | StreamReply "string list"

definition header :: "(string \<times> string) list \<Rightarrow> string \<Rightarrow> js" where
  "header hs k = (case map_of hs k of None \<Rightarrow> JUndefined | Some v \<Rightarrow> JStr v)"

definition headers_object :: "(string \<times> string) list \<Rightarrow> js" where
  "headers_object hs = JObj (map (\<lambda>(k, v). (k, JStr v)) hs)"

text \<open>
  \<^verbatim>\<open>
  buildAnthropicHeaders(requestHeaders) {
    return {
      "x-api-key": requestHeaders["x-api-key"] || process.env.ANTHROPIC_API_KEY,
      "anthropic-version": requestHeaders["anthropic-version"] || ANTHROPIC_DEFAULT_VERSION,
      "content-type": "application/json",
    };
  }
  \<close>
\<close>

definition buildAnthropicHeaders :: "env \<Rightarrow> (string \<times> string) list \<Rightarrow> (string \<times> js) list" where
  "buildAnthropicHeaders E requestHeaders =
     [(''x-api-key'', js_or (header requestHeaders ''x-api-key'') (ANTHROPIC_API_KEY E)),
      (''anthropic-version'', js_or (header requestHeaders ''anthropic-version'') (JStr ''2023-06-01'')),
      (''content-type'', JStr ''application/json'')]"

definition upstream_call :: "env \<Rightarrow> request \<Rightarrow> outgoing" where
  "upstream_call E req =
     \<lparr>out_headers = buildAnthropicHeaders E (headers req),
      out_body = JSON_stringify E (body req)\<rparr>"

text \<open>The messages given to \<open>broadcast\<close>.\<close>

definition request_event :: "js \<Rightarrow> int \<Rightarrow> js \<Rightarrow> js" where
  "request_event requestId timestamp b =
     JObj [(''type'', JStr ''request''),
           (''data'', JObj [(''id'', requestId), (''timestamp'', num timestamp),
                            (''model'', opt_prop b ''model''),
                            (''messages'', opt_prop b ''messages''),
                            (''tools'', opt_prop b ''tools''),
                            (''temperature'', opt_prop b ''temperature''),
                            (''max_tokens'', opt_prop b ''max_tokens''),
                            (''stream'', opt_prop b ''stream'')])]"

definition response_event :: "js \<Rightarrow> js \<Rightarrow> int \<Rightarrow> js \<Rightarrow> js" where
  "response_event requestId resp latency tokens =
     JObj [(''type'', JStr ''response''),
           (''data'', JObj [(''requestId'', requestId), (''response'', resp),
                            (''latency'', num latency), (''tokensUsedTotal'', tokens)])]"

definition tool_call_event :: "js \<Rightarrow> js \<Rightarrow> js \<Rightarrow> js" where
  "tool_call_event requestId toolName inp =
     JObj [(''type'', JStr ''tool_call''),
           (''data'', JObj [(''requestId'', requestId), (''toolName'', toolName),
                            (''input'', inp)])]"

text \<open>
  \<^verbatim>\<open>
  extractAndStoreToolCalls(requestId, responseData) {
    if (!Array.isArray(responseData?.content)) return;
    for (const content of responseData.content) {
      if (content?.type === "tool_use") {
        this.stmts.insertToolCall.run(requestId, content.name,
          JSON.stringify(content.input ?? null), Date.now());
        this.broadcast({ type: "tool_call",
          data: { requestId, toolName: content.name, input: content.input } });
      }
    }
  }
  \<close>
  Inside the \<open>if\<close>, \<open>content\<close> is an object, so \<open>content.name\<close> and \<open>content.input\<close> do not
  throw.
\<close>

fun store_tool_calls :: "env \<Rightarrow> js \<Rightarrow> js list \<Rightarrow> tracer \<Rightarrow> unit result" where
  "store_tool_calls E requestId [] st = (Inr (), st)"
| "store_tool_calls E requestId (content # rest) st =
     (if opt_prop content ''type'' = JStr ''tool_use'' then
        let inp = JSON_stringify E (nullish (opt_prop content ''input'') JNull);
            (now, st1) = Date_now E st;
            row = tool_call_row (Suc (tool_seq st1)) requestId (opt_prop content ''name'') inp (num now)
        in and_then (run_insert ToolCalls row st1)
             (\<lambda>_ st2. store_tool_calls E requestId rest
                (broadcast (tool_call_event requestId (opt_prop content ''name'') (opt_prop content ''input''))
                   (st2\<lparr>tool_seq := Suc (tool_seq st2)\<rparr>)))
      else store_tool_calls E requestId rest st)"

definition extractAndStoreToolCalls :: "env \<Rightarrow> js \<Rightarrow> js \<Rightarrow> tracer \<Rightarrow> unit result" where
  "extractAndStoreToolCalls E requestId responseData st =
     (case opt_prop responseData ''content'' of
        JArr contents \<Rightarrow> store_tool_calls E requestId contents st
      | _ \<Rightarrow> (Inr (), st))"

text \<open>
  \<open>handleRegularRequest\<close>, the body of its \<open>try\<close> block:
  \<^verbatim>\<open>
  this.stmts.insertResponseFull.run(uuidv4(), requestId, Date.now(), anthropicResponse.status,
    null, JSON.stringify(responseData), latency, this.calculateTokens(responseData?.usage));
  this.extractAndStoreToolCalls(requestId, responseData);
  \<close>
\<close>

definition store_response :: "env \<Rightarrow> js \<Rightarrow> upstream_response \<Rightarrow> js \<Rightarrow> int \<Rightarrow> tracer \<Rightarrow> unit result" where
  "store_response E requestId anthropicResponse responseData latency st =
     (let (rid, st1) = uuidv4 E st;
          (now, st2) = Date_now E st1
      in and_then (calculateTokens (opt_prop responseData ''usage''), st2)
           (\<lambda>tokens st3.
              and_then
                (run_insert Responses
                   (response_row rid requestId (num now) (num (int (status anthropicResponse))) JNull
                      (JSON_stringify E responseData) (num latency) tokens) st3)
                (\<lambda>_. extractAndStoreToolCalls E requestId responseData)))"

text \<open>
  \<^verbatim>\<open>
  async handleRegularRequest(req, res, requestId) {
    const startTime = Date.now();
    const anthropicResponse = await fetch(ANTHROPIC_API_URL, { method: "POST",
      headers: this.buildAnthropicHeaders(req.headers), body: JSON.stringify(req.body) });
    const responseData = await anthropicResponse.json();
    const latency = Date.now() - startTime;
    try { ... } catch (dbError) {
      console.error("Database error storing response:", dbError);
    }
    this.broadcast({ type: "response", data: { requestId, response: responseData, latency,
      tokensUsedTotal: this.calculateTokens(responseData?.usage) } });
    res.status(anthropicResponse.status).json(responseData);
  }
  \<close>
\<close>

definition handleRegularRequest :: "env \<Rightarrow> request \<Rightarrow> js \<Rightarrow> tracer \<Rightarrow> reply result" where
  "handleRegularRequest E req requestId st =
     (let (startTime, st1) = Date_now E st;
          st2 = st1\<lparr>forwarded := forwarded st1 @ [upstream_call E req]\<rparr>
      in case fetch E (upstream_call E req) of
           Inl e \<Rightarrow> (Inl e, st2)
         | Inr anthropicResponse \<Rightarrow>
            (case json anthropicResponse of
               Inl e \<Rightarrow> (Inl e, st2)
             | Inr responseData \<Rightarrow>
                 let (now, st3) = Date_now E st2;
                     latency = now - startTime;
                     st4 = snd (try_catch (store_response E requestId anthropicResponse responseData latency st3)
                                  (\<lambda>dbError s. (Inr (), console_error ''Database error storing response:'' s)))
                 in and_then (calculateTokens (opt_prop responseData ''usage''), st4)
                      (\<lambda>tokens st5.
                         (Inr (JsonReply (status anthropicResponse) responseData),
                          broadcast (response_event requestId responseData latency tokens) st5))))"

text \<open>
  \<open>handleStreamingRequest\<close>, the \<open>try\<close> block of the \<open>end\<close> callback:
  \<^verbatim>\<open>
  const sseUsage = this.extractUsageFromSSE(fullResponse);
  const parsedFinal = this.parseStreamingResponse(fullResponse);
  const usage = parsedFinal?.usage || sseUsage;
  const tokensTotal = this.calculateTokens(usage);
  this.stmts.insertResponseStream.run(uuidv4(), requestId, Date.now(), 200, fullResponse,
    latency, tokensTotal);
  this.broadcast({ type: "response", data: { requestId,
    response: parsedFinal || fullResponse, latency, tokensUsedTotal: tokensTotal } });
  \<close>
\<close>

definition store_stream :: "env \<Rightarrow> js \<Rightarrow> string \<Rightarrow> int \<Rightarrow> tracer \<Rightarrow> unit result" where
  "store_stream E requestId fullResponse latency st =
     and_then (extractUsageFromSSE E fullResponse, st)
       (\<lambda>sseUsage st1.
          and_then (parseStreamingResponse E fullResponse, st1)
            (\<lambda>parsedFinal st2.
               and_then (calculateTokens (js_or (opt_prop parsedFinal ''usage'') sseUsage), st2)
                 (\<lambda>tokensTotal st3.
                    let (rid, st4) = uuidv4 E st3;
                        (now, st5) = Date_now E st4
                    in and_then
                         (run_insert Responses
                            (response_row rid requestId (num now) (num 200) JNull
                               (JStr fullResponse) (num latency) tokensTotal) st5)
                         (\<lambda>_ st6.
                            (Inr (), broadcast (response_event requestId
                                        (js_or parsedFinal (JStr fullResponse)) latency tokensTotal) st6)))))"

text \<open>
  The \<open>catch\<close> block of the \<open>end\<close> callback:
  \<^verbatim>\<open>
  console.error("Database error storing streaming response:", dbError);
  const parsedFinal = this.parseStreamingResponse(fullResponse);
  const usage = this.extractUsageFromSSE(fullResponse);
  this.broadcast({ type: "response", data: { requestId,
    response: parsedFinal || fullResponse, latency,
    tokensUsedTotal: this.calculateTokens(usage) } });
  \<close>
\<close>

definition store_stream_failed :: "env \<Rightarrow> js \<Rightarrow> string \<Rightarrow> int \<Rightarrow> tracer \<Rightarrow> unit result" where
  "store_stream_failed E requestId fullResponse latency st =
     and_then (parseStreamingResponse E fullResponse,
               console_error ''Database error storing streaming response:'' st)
       (\<lambda>parsedFinal st1.
          and_then (extractUsageFromSSE E fullResponse, st1)
            (\<lambda>usage st2.
               and_then (calculateTokens usage, st2)
                 (\<lambda>tokens st3.
                    (Inr (), broadcast (response_event requestId
                                (js_or parsedFinal (JStr fullResponse)) latency tokens) st3))))"

text \<open>
  \<open>handleStreamingRequest\<close>: every chunk is appended to \<open>fullResponse\<close> and written to the
  caller as it arrives; the \<open>end\<close> callback runs after the last chunk. An exception that
  leaves the \<open>end\<close> callback is not caught by the route (the callback runs later, outside
  the route's \<open>try\<close>); it is the \<open>Inl\<close> result here.
\<close>

definition handleStreamingRequest :: "env \<Rightarrow> request \<Rightarrow> js \<Rightarrow> tracer \<Rightarrow> reply result" where
  "handleStreamingRequest E req requestId st =
     (let (startTime, st1) = Date_now E st;
          st2 = st1\<lparr>forwarded := forwarded st1 @ [upstream_call E req]\<rparr>
      in case fetch E (upstream_call E req) of
           Inl e \<Rightarrow> (Inl e, st2)
         | Inr anthropicResponse \<Rightarrow>
             let fullResponse = concat (chunks anthropicResponse);
                 (now, st3) = Date_now E st2;
                 latency = now - startTime
             in and_then
                  (try_catch (store_stream E requestId fullResponse latency st3)
                     (\<lambda>dbError. store_stream_failed E requestId fullResponse latency))
                  (\<lambda>_ st4. (Inr (StreamReply (chunks anthropicResponse)), st4)))"

text \<open>
  The route \<open>POST /v1/messages\<close>. Its first \<open>try\<close> block:
  \<^verbatim>\<open>
  try {
    const requestTrace = { id: requestId, timestamp, method: "POST", endpoint: "/v1/messages",
      headers: null, body: JSON.stringify(req.body) };
    this.stmts.insertRequest.run(requestId, this.currentSessionId, timestamp,
      requestTrace.method, requestTrace.endpoint, requestTrace.headers, requestTrace.body,
      req.body?.stream ? 1 : 0);
  } catch (dbError) {
    console.error("Database error storing request:", dbError);
  }
  \<close>
\<close>

definition persist_request :: "env \<Rightarrow> request \<Rightarrow> js \<Rightarrow> int \<Rightarrow> tracer \<Rightarrow> tracer" where
  "persist_request E req requestId timestamp st =
     snd (try_catch
            (run_insert Requests
               (request_row requestId (currentSessionId st) (num timestamp) (JStr ''POST'')
                  (JStr ''/v1/messages'') JNull (JSON_stringify E (body req))
                  (if truthy (opt_prop (body req) ''stream'') then num 1 else num 0)) st)
            (\<lambda>dbError s. (Inr (), console_error ''Database error storing request:'' s)))"

text \<open>
  \<^verbatim>\<open>
  this.app.post("/v1/messages", async (req, res) => {
    const requestId = uuidv4();
    const timestamp = Date.now();
    try { ... } catch (dbError) { ... }
    this.broadcast({ type: "request", data: { id: requestId, timestamp,
      model: req.body?.model, messages: req.body?.messages, tools: req.body?.tools,
      temperature: req.body?.temperature, max_tokens: req.body?.max_tokens,
      stream: req.body?.stream } });
    try {
      if (req.body?.stream) await this.handleStreamingRequest(req, res, requestId);
      else await this.handleRegularRequest(req, res, requestId);
    } catch (error) {
      console.error("Proxy error:", error);
      res.status(500).json({ error: "Proxy error", details: error.message });
    }
  });
  \<close>
  The result is the response delivered to the caller, or \<open>Inl\<close> for an exception that the
  route does not catch. The second \<open>try\<close> covers what the handlers do before they return:
  all of \<open>handleRegularRequest\<close>, and of \<open>handleStreamingRequest\<close> the call to \<open>fetch\<close>;
  the callbacks of the stream run after the route has left its \<open>try\<close>.
\<close>

definition proxy_error :: "env \<Rightarrow> error \<Rightarrow> reply" where
  "proxy_error E e =
     JsonReply 500 (JObj [(''error'', JStr ''Proxy error''), (''details'', JStr (message E e))])"

definition post_messages :: "env \<Rightarrow> request \<Rightarrow> tracer \<Rightarrow> reply result" where
  "post_messages E req st =
     (let (requestId, st1) = uuidv4 E st;
          (timestamp, st2) = Date_now E st1;
          st3 = persist_request E req requestId timestamp st2;
          st4 = broadcast (request_event requestId timestamp (body req)) st3
      in if truthy (opt_prop (body req) ''stream'') then
           (case fetch E (upstream_call E req) of
              Inl e \<Rightarrow>
                try_catch (handleStreamingRequest E req requestId st4)
                  (\<lambda>e s. (Inr (proxy_error E e), console_error ''Proxy error:'' s))
            | Inr _ \<Rightarrow> handleStreamingRequest E req requestId st4)
         else
           try_catch (handleRegularRequest E req requestId st4)
             (\<lambda>e s. (Inr (proxy_error E e), console_error ''Proxy error:'' s)))"

text \<open>
  The same two places in \<open>src/proxy/server.js\<close>. The first \<open>try\<close> block of its route
  stores the request headers:
  \<^verbatim>\<open>
  const requestTrace = { id: requestId, timestamp, method: "POST", endpoint: "/v1/messages",
    headers: JSON.stringify(req.headers), body: JSON.stringify(req.body) };
  insertRequest.run(requestId, this.currentSessionId, timestamp, requestTrace.method,
    requestTrace.endpoint, requestTrace.headers, requestTrace.body);
  \<close>
  (its \<open>requests\<close> table has no \<open>stream\<close> column).
\<close>

definition request_row_legacy :: "js \<Rightarrow> js \<Rightarrow> js \<Rightarrow> js \<Rightarrow> js \<Rightarrow> js \<Rightarrow> js \<Rightarrow> js" where
  "request_row_legacy rid session_id ts method endpoint hdrs bdy =
     JObj [(''id'', rid), (''session_id'', session_id), (''timestamp'', ts),
           (''method'', method), (''endpoint'', endpoint), (''headers'', hdrs),
           (''body'', bdy)]"

definition persist_request_legacy :: "env \<Rightarrow> request \<Rightarrow> js \<Rightarrow> int \<Rightarrow> tracer \<Rightarrow> tracer" where
  "persist_request_legacy E req requestId timestamp st =
     snd (try_catch
            (run_insert Requests
               (request_row_legacy requestId (currentSessionId st) (num timestamp) (JStr ''POST'')
                  (JStr ''/v1/messages'') (JSON_stringify E (headers_object (headers req)))
                  (JSON_stringify E (body req))) st)
            (\<lambda>dbError s. (Inr (), console_error ''Database error storing request:'' s)))"

text \<open>
  Its \<open>handleRegularRequest\<close> stores the response headers and the output tokens only, and
  broadcasts the usage object:
  \<^verbatim>\<open>
  try {
    insertResponse.run(uuidv4(), requestId, Date.now(), anthropicResponse.status,
      JSON.stringify(Object.fromEntries(anthropicResponse.headers.entries?.() || [])),
      JSON.stringify(responseData), latency, responseData?.usage?.output_tokens || 0);
    this.extractAndStoreToolCalls(requestId, responseData);
  } catch (dbError) { console.error("Database error storing response:", dbError); }
  this.broadcast({ type: "response", data: { requestId, response: responseData, latency,
    tokensUsed: responseData?.usage } });
  res.status(anthropicResponse.status).json(responseData);
  \<close>
\<close>

definition store_response_legacy :: "env \<Rightarrow> js \<Rightarrow> upstream_response \<Rightarrow> js \<Rightarrow> int \<Rightarrow> tracer \<Rightarrow> unit result" where
  "store_response_legacy E requestId anthropicResponse responseData latency st =
     (let (rid, st1) = uuidv4 E st;
          (now, st2) = Date_now E st1
      in and_then
           (run_insert Responses
              (response_row rid requestId (num now) (num (int (status anthropicResponse)))
                 (JSON_stringify E (headers_object (resp_headers anthropicResponse)))
                 (JSON_stringify E responseData) (num latency)
                 (js_or (opt_prop (opt_prop responseData ''usage'') ''output_tokens'') (num 0))) st2)
           (\<lambda>_. extractAndStoreToolCalls E requestId responseData))"

definition response_event_legacy :: "js \<Rightarrow> js \<Rightarrow> int \<Rightarrow> js \<Rightarrow> js" where
  "response_event_legacy requestId resp latency tokensUsed =
     JObj [(''type'', JStr ''response''),
           (''data'', JObj [(''requestId'', requestId), (''response'', resp),
                            (''latency'', num latency), (''tokensUsed'', tokensUsed)])]"

definition handleRegularRequest_legacy :: "env \<Rightarrow> request \<Rightarrow> js \<Rightarrow> tracer \<Rightarrow> reply result" where
  "handleRegularRequest_legacy E req requestId st =
     (let (startTime, st1) = Date_now E st;
          st2 = st1\<lparr>forwarded := forwarded st1 @ [upstream_call E req]\<rparr>
      in case fetch E (upstream_call E req) of
           Inl e \<Rightarrow> (Inl e, st2)
         | Inr anthropicResponse \<Rightarrow>
            (case json anthropicResponse of
               Inl e \<Rightarrow> (Inl e, st2)
             | Inr responseData \<Rightarrow>
                 let (now, st3) = Date_now E st2;
                     latency = now - startTime;
                     st4 = snd (try_catch (store_response_legacy E requestId anthropicResponse responseData latency st3)
                                  (\<lambda>dbError s. (Inr (), console_error ''Database error storing response:'' s)))
                 in (Inr (JsonReply (status anthropicResponse) responseData),
                     broadcast (response_event_legacy requestId responseData latency
                                  (opt_prop responseData ''usage'')) st4)))"

section \<open>Query surface\<close>

text \<open>
  \<^verbatim>\<open>
  this.app.get("/api/traces/:sessionId?", (req, res) => {
    const traces = req.params.sessionId
      ? this.stmts.selectRequestsBySession.all(req.params.sessionId)
      : this.stmts.selectRecentRequests.all();
    const fullTraces = traces.map((trace) => {
      const response = this.stmts.selectResponsesByRequest.get(trace.id);
      const toolCalls = this.stmts.selectToolCallsByRequest.all(trace.id);
      const parsedBody = safeParseJSON(trace.body);
      return { ...trace, body: parsedBody,
        stream: trace.stream === 1 || parsedBody?.stream === true,
        response: response ? { ...response, body: safeParseJSON(response.body) } : null,
        toolCalls };
    });
    res.json(fullTraces);
  });
  \<close>
  \<open>WHERE column = ?\<close> is never true of a NULL. \<open>ORDER BY timestamp DESC\<close> is modelled by
  a stable sort on the timestamp (the engine does not fix the order of equal timestamps).
\<close>

definition sql_eq :: "js \<Rightarrow> js \<Rightarrow> bool" where
  "sql_eq a b = (a \<noteq> JNull \<and> b \<noteq> JNull \<and> a = b)"

definition timestamp_of :: "js \<Rightarrow> rat" where
  "timestamp_of row = (case opt_prop row ''timestamp'' of JNum (Fin r) \<Rightarrow> r | _ \<Rightarrow> 0)"

definition newest_first :: "js list \<Rightarrow> js list" where
  "newest_first rs = rev (sort_key timestamp_of rs)"

definition selectRequestsBySession :: "tracer \<Rightarrow> js \<Rightarrow> js list" where
  "selectRequestsBySession st sessionId =
     newest_first (filter (\<lambda>r. sql_eq (opt_prop r ''session_id'') sessionId) (rows st Requests))"

definition selectRecentRequests :: "tracer \<Rightarrow> js list" where
  "selectRecentRequests st = take 100 (newest_first (rows st Requests))"

definition selectResponsesByRequest :: "tracer \<Rightarrow> js \<Rightarrow> js option" where
  "selectResponsesByRequest st rid = find (\<lambda>r. sql_eq (opt_prop r ''request_id'') rid) (rows st Responses)"

definition selectToolCallsByRequest :: "tracer \<Rightarrow> js \<Rightarrow> js list" where
  "selectToolCallsByRequest st rid = filter (\<lambda>r. sql_eq (opt_prop r ''request_id'') rid) (rows st ToolCalls)"

definition own_properties :: "js \<Rightarrow> (string \<times> js) list" where
  "own_properties v = (case v of JObj kvs \<Rightarrow> kvs | _ \<Rightarrow> [])"

definition full_trace :: "env \<Rightarrow> tracer \<Rightarrow> js \<Rightarrow> js" where
  "full_trace E st trace =
     (let response = selectResponsesByRequest st (opt_prop trace ''id'');
          toolCalls = selectToolCallsByRequest st (opt_prop trace ''id'');
          parsedBody = safeParseJSON E (opt_prop trace ''body'')
      in JObj (set_prop (set_prop (set_prop (set_prop (own_properties trace)
           ''body'' parsedBody)
           ''stream'' (JBool (opt_prop trace ''stream'' = num 1 \<or> opt_prop parsedBody ''stream'' = JBool True)))
           ''response'' (case response of
                           None \<Rightarrow> JNull
                         | Some r \<Rightarrow> JObj (set_prop (own_properties r) ''body'' (safeParseJSON E (opt_prop r ''body'')))))
           ''toolCalls'' (JArr toolCalls)))"

definition get_traces :: "env \<Rightarrow> js \<Rightarrow> tracer \<Rightarrow> js list" where
  "get_traces E sessionId st =
     map (full_trace E st)
       (if truthy sessionId then selectRequestsBySession st sessionId
        else selectRecentRequests st)"

section \<open>Clear\<close>

text \<open>
  \<^verbatim>\<open>
  this.app.post("/api/clear", (_req, res) => {
    try {
      this.db.exec("PRAGMA foreign_keys = ON");
      this.db.exec("BEGIN");
      this.db.exec("DELETE FROM tool_calls");
      this.db.exec("DELETE FROM responses");
      this.db.exec("DELETE FROM requests");
      this.db.exec("DELETE FROM sessions");
      this.db.exec("COMMIT");
      this.createSession();
      try { this.db.exec("VACUUM"); } catch (_e) { }
      this.broadcast({ type: "cleared" });
      res.json({ ok: true });
    } catch (e) {
      console.error("Failed to clear traces:", e);
      try { this.db.exec("ROLLBACK"); } catch {}
      res.status(500).json({ ok: false, error: "Failed to clear traces" });
    }
  });
  \<close>
\<close>

definition delete_all :: "sql list" where
  "delete_all = [Pragma_foreign_keys, Begin, Delete_from ToolCalls, Delete_from Responses,
                 Delete_from Requests, Delete_from Sessions, Commit]"

definition cleared_event :: js where
  "cleared_event = JObj [(''type'', JStr ''cleared'')]"

definition ignoring :: "unit result \<Rightarrow> tracer" where
  "ignoring r = snd (try_catch r (\<lambda>e s. (Inr (), s)))"

definition clear_try :: "env \<Rightarrow> tracer \<Rightarrow> reply result" where
  "clear_try E st =
     and_then (exec_all delete_all st)
       (\<lambda>_ st1.
          and_then (createSession E st1)
            (\<lambda>_ st2.
               (Inr (JsonReply 200 (JObj [(''ok'', JBool True)])),
                broadcast cleared_event (ignoring (exec Vacuum st2)))))"

definition clear_failed :: "reply" where
  "clear_failed =
     JsonReply 500 (JObj [(''ok'', JBool False), (''error'', JStr ''Failed to clear traces'')])"

definition post_clear :: "env \<Rightarrow> tracer \<Rightarrow> reply \<times> tracer" where
  "post_clear E st =
     (case clear_try E st of
        (Inr r, st1) \<Rightarrow> (r, st1)
      | (Inl e, st1) \<Rightarrow>
          (clear_failed, ignoring (exec Rollback (console_error ''Failed to clear traces:'' st1))))"

section \<open>The final object as the specification words it\<close>

text \<open>
  The specification's words for the structured final object: the last syntactically
  complete JSON object appearing on its own line of the text (after trimming), \<open>null\<close>
  when there is no such line. A line is a syntactically complete JSON object when
  \<open>JSON.parse\<close> accepts it and gives an object.
\<close>

definition complete_object :: "env \<Rightarrow> string \<Rightarrow> bool" where
  "complete_object E line =
     (case JSON_parse E (JStr line) of Inr (JObj _) \<Rightarrow> True | _ \<Rightarrow> False)"

definition spec_final_object :: "env \<Rightarrow> string \<Rightarrow> js" where
  "spec_final_object E fullResponse =
     (case find (complete_object E) (rev (nonempty_lines fullResponse)) of
        None \<Rightarrow> JNull
      | Some line \<Rightarrow> (case JSON_parse E (JStr line) of Inl _ \<Rightarrow> JNull | Inr v \<Rightarrow> v))"

section \<open>A sample environment\<close>

text \<open>
  The concrete runs below need the values of the built-ins on a few texts. \<open>sample_parse\<close>
  and \<open>sample_stringify\<close> give the values of \<open>JSON.parse\<close> and \<open>JSON.stringify\<close> on the
  arguments listed; no other argument occurs in those runs.
\<close>

definition delta_data :: string where
  \<open>delta_data = ''{"type":"message_delta","usage":{"input_tokens":3,"output_tokens":7}}''\<close>

definition start_data :: string where
  \<open>start_data = ''{"type":"message_start","message":{"usage":{"input_tokens":3,"output_tokens":0}}}''\<close>

definition usage_3_7 :: js where
  "usage_3_7 = JObj [(''input_tokens'', num 3), (''output_tokens'', num 7)]"

definition usage_3_0 :: js where
  "usage_3_0 = JObj [(''input_tokens'', num 3), (''output_tokens'', num 0)]"

definition usage_10_5 :: js where
  "usage_10_5 = JObj [(''input_tokens'', num 10), (''output_tokens'', num 5)]"

definition sample_body :: js where
  "sample_body = JObj [(''model'', JStr ''claude''), (''messages'', JArr [])]"

definition sample_stream_body :: js where
  "sample_stream_body =
     JObj [(''model'', JStr ''claude''), (''messages'', JArr []), (''stream'', JBool True)]"

definition sample_answer :: js where
  "sample_answer = JObj [(''usage'', usage_10_5)]"

definition sample_parse :: "js \<Rightarrow> error + js" where
  \<open>sample_parse v =
     (if v = JStr ''{"a":1}'' then Inr (JObj [(''a'', num 1)])
      else if v = JStr ''{"b":2}'' then Inr (JObj [(''b'', num 2)])
      else if v = JStr ''{"b":{"c":1}'' then Inl SyntaxError
      else if v = JStr ''not json'' then Inl SyntaxError
      else if v = JStr [] then Inl SyntaxError
      else if v = JStr ''{"model":"claude","messages":[]}'' then Inr sample_body
      else if v = JStr ''{"model":"claude","messages":[],"stream":true}'' then Inr sample_stream_body
      else if v = JStr delta_data then
        Inr (JObj [(''type'', JStr ''message_delta''), (''usage'', usage_3_7)])
      else if v = JStr start_data then
        Inr (JObj [(''type'', JStr ''message_start''), (''message'', JObj [(''usage'', usage_3_0)])])
      else Inl SyntaxError)\<close>

definition sample_stringify :: "js \<Rightarrow> js" where
  \<open>sample_stringify v =
     (if v = sample_body then JStr ''{"model":"claude","messages":[]}''
      else if v = sample_stream_body then JStr ''{"model":"claude","messages":[],"stream":true}''
      else if v = sample_answer then JStr ''{"usage":{"input_tokens":10,"output_tokens":5}}''
      else if v = headers_object [(''x-api-key'', ''sk-ant-secret'')]
        then JStr ''{"x-api-key":"sk-ant-secret"}''
      else if v = headers_object [(''content-type'', ''application/json'')]
        then JStr ''{"content-type":"application/json"}''
      else JUndefined)\<close>

text \<open>
  An upstream that answers every buffered call with \<open>{"usage": {"input_tokens": 10,
  "output_tokens": 5}}\<close> and every streamed call with a \<open>message_start\<close> record followed
  by a \<open>message_delta\<close> record, in two chunks.
\<close>

definition sample_chunks :: "string list" where
  "sample_chunks =
     [''event: message_start\<newline>data: '' @ start_data @ ''\<newline>\<newline>'',
      ''event: message_delta\<newline>data: '' @ delta_data @ ''\<newline>\<newline>'']"

definition sample_upstream :: upstream_response where
  "sample_upstream =
     \<lparr>status = 200, resp_headers = [(''content-type'', ''application/json'')],
      json = Inr sample_answer, chunks = sample_chunks\<rparr>"

definition sample_env :: env where
  "sample_env =
     \<lparr>JSON_parse = sample_parse, JSON_stringify = sample_stringify,
      fetch = (\<lambda>call. Inr sample_upstream), ANTHROPIC_API_KEY = JUndefined,
      uuid = (\<lambda>n. replicate (Suc n) CHR ''u''), clock = (\<lambda>n. 1000 + 10 * int n),
      message = (\<lambda>e. ''failed'')\<rparr>"

definition sample_request :: request where
  "sample_request = \<lparr>headers = [(''x-api-key'', ''sk-ant-secret'')], body = sample_body\<rparr>"

definition sample_stream_request :: request where
  "sample_stream_request =
     \<lparr>headers = [(''x-api-key'', ''sk-ant-secret'')], body = sample_stream_body\<rparr>"

text \<open>The process before \<open>start()\<close>, and after it.\<close>

definition fresh :: tracer where
  "fresh =
     \<lparr>rows = (\<lambda>t. []), txn = None, tool_seq = 0, currentSessionId = JUndefined, sent = [],
      logged = [], forwarded = [], outcomes = [], uuids = 0, ticks = 0\<rparr>"

definition started :: "env \<Rightarrow> tracer" where
  "started E = snd (createSession E fresh)"

text \<open>
  The store after one streamed call whose upstream stream was empty: the response row
  holds the accumulated text, the empty string.
\<close>

definition empty_stream_store :: tracer where
  \<open>empty_stream_store =
     fresh\<lparr>rows := (\<lambda>t.
        if t = Requests then
          [request_row (JStr ''r1'') (JStr ''s1'') (num 1000) (JStr ''POST'') (JStr ''/v1/messages'')
             JNull (JStr ''{"model":"claude","messages":[],"stream":true}'') (num 1)]
        else if t = Responses then
          [response_row (JStr ''p1'') (JStr ''r1'') (num 1010) (num 200) JNull (JStr [])
             (num 10) (num 0)]
        else [])\<rparr>\<close>

text \<open>A store with one buffered call whose stored response body is not JSON.\<close>

definition stored_request :: js where
  \<open>stored_request =
     request_row (JStr ''r1'') (JStr ''s1'') (num 1000) (JStr ''POST'') (JStr ''/v1/messages'')
       JNull (JStr ''{"model":"claude","messages":[]}'') (num 0)\<close>

definition stored_malformed_response :: js where
  "stored_malformed_response =
     response_row (JStr ''p1'') (JStr ''r1'') (num 1010) (num 200) JNull (JStr ''not json'')
       (num 10) (num 0)"

definition malformed_store :: tracer where
  "malformed_store =
     fresh\<lparr>rows := (\<lambda>t.
        if t = Requests then [stored_request]
        else if t = Responses then [stored_malformed_response]
        else [])\<rparr>"

text \<open>A stream in which the \<open>message_delta\<close> record comes before the \<open>message_start\<close> record.\<close>

definition reversed_stream :: string where
  "reversed_stream =
     ''event: message_delta\<newline>data: '' @ delta_data @ ''\<newline>\<newline>'' @
     ''event: message_start\<newline>data: '' @ start_data @ ''\<newline>\<newline>''"





text \<open>
  The process after one captured buffered call, and the same process when the storage
  engine is about to fail at the fifth statement it is given (in a clear: at
  \<open>DELETE FROM requests\<close>, after the tool calls and the responses have been deleted).
\<close>

definition traced_store :: tracer where
  "traced_store = snd (post_messages sample_env sample_request (started sample_env))"

definition half_failing :: tracer where
  "half_failing = traced_store\<lparr>outcomes := [Done, Done, Done, Done, Failed]\<rparr>"

section \<open>Notions used in the statements\<close>


text \<open>
  \<open>grows st st'\<close>: from \<open>st\<close> to \<open>st'\<close> no call to upstream was made, and the broadcast
  messages and the console lines of \<open>st\<close> are still there, in place.
\<close>

definition grows :: "tracer \<Rightarrow> tracer \<Rightarrow> bool" where
  "grows st st' =
     (forwarded st' = forwarded st
      \<and> (\<exists>more. sent st' = sent st @ more)
      \<and> (\<exists>more. logged st' = logged st @ more))"

definition calls :: "tracer \<Rightarrow> outgoing \<Rightarrow> tracer \<Rightarrow> bool" where
  "calls st c st' =
     (forwarded st' = forwarded st @ [c]
      \<and> (\<exists>more. sent st' = sent st @ more)
      \<and> (\<exists>more. logged st' = logged st @ more))"

text \<open>
  The state reached once the route has stored (or failed to store) the request row and has
  broadcast the \<open>request\<close> event, just before it forwards the call.
\<close>

definition announced :: "env \<Rightarrow> request \<Rightarrow> tracer \<Rightarrow> tracer" where
  "announced E req st =
     broadcast (request_event (JStr (uuid E (uuids st))) (clock E (ticks st)) (body req))
       (persist_request E req (JStr (uuid E (uuids st))) (clock E (ticks st))
          (snd (Date_now E (snd (uuidv4 E st)))))"

text \<open>\<open>keeps R st\<close>: no transaction is open and the \<open>responses\<close> table holds the rows \<open>R\<close>.\<close>

definition keeps :: "js list \<Rightarrow> tracer \<Rightarrow> bool" where
  "keeps R st = (txn st = None \<and> rows st Responses = R)"

text \<open>
  \<open>same_traces s s'\<close>: the two states differ at most in the calls that were made to
  upstream; the store, the broadcast messages and everything else are the same.
  \<open>agree r r'\<close>: two steps gave the same value and left states with the same traces.
\<close>

definition same_traces :: "tracer \<Rightarrow> tracer \<Rightarrow> bool" where
  "same_traces s s' =
     (rows s = rows s' \<and> txn s = txn s' \<and> tool_seq s = tool_seq s'
      \<and> currentSessionId s = currentSessionId s' \<and> sent s = sent s' \<and> logged s = logged s'
      \<and> outcomes s = outcomes s' \<and> uuids s = uuids s' \<and> ticks s = ticks s')"

definition agree :: "'a \<times> tracer \<Rightarrow> 'a \<times> tracer \<Rightarrow> bool" where
  "agree r r' = (fst r = fst r' \<and> same_traces (snd r) (snd r'))"

section \<open>Properties of the usage extractor\<close>

lemma calculateTokens_cases:
  "calculateTokens usage =
     Inr (if finite_number (opt_prop usage ''total_tokens'') then opt_prop usage ''total_tokens''
          else JNum (js_add (number_or_zero (opt_prop usage ''input_tokens''))
                            (number_or_zero (opt_prop usage ''output_tokens''))))"
  by (cases usage) (simp_all add: calculateTokens_def split: option.splits)

lemma finite_number_JNum: "finite_number v \<Longrightarrow> \<exists>n. v = JNum n"
  by (cases v rule: finite_number.cases) simp_all

lemma calculateTokens_number: "\<exists>n. calculateTokens usage = Inr (JNum n)"
  using finite_number_JNum [of "opt_prop usage ''total_tokens''"]
  by (auto simp: calculateTokens_cases)







text \<open>
  Claim C10: a \<open>total_tokens\<close> that is present but is not a finite number of number type (NaN,
  an infinity, a numeric string, ...) is ignored, and the result is the sum of
  \<open>input_tokens\<close> and \<open>output_tokens\<close>, each 0 when absent or not of number type. For every
  input value, including \<open>null\<close>, arrays and primitives, \<open>calculateTokens\<close> returns a number
  and does not throw.
\<close>

theorem calculateTokens_ignores_non_finite_total:
  "(map_of kvs ''total_tokens'' = Some tot \<and> \<not> finite_number tot \<longrightarrow>
      calculateTokens (JObj kvs) =
        Inr (JNum (js_add (number_or_zero (opt_prop (JObj kvs) ''input_tokens''))
                          (number_or_zero (opt_prop (JObj kvs) ''output_tokens'')))))
   \<and> \<not> finite_number (JNum NaN) \<and> \<not> finite_number (JNum PosInf)
   \<and> \<not> finite_number (JNum NegInf) \<and> \<not> finite_number (JStr s)
   \<and> (\<exists>n. calculateTokens v = Inr (JNum n))
   \<and> calculateTokens JNull = Inr (num 0)
   \<and> calculateTokens (JArr xs) = Inr (num 0)
   \<and> calculateTokens (JBool b) = Inr (num 0)
   \<and> calculateTokens (JNum x) = Inr (num 0)
   \<and> calculateTokens (JStr s) = Inr (num 0)"
proof -
  have "\<exists>n. calculateTokens v = Inr (JNum n)"
    by (rule calculateTokens_number)
  then show ?thesis
    by (simp add: calculateTokens_cases num_def)
qed

theorem calculateTokens_ignores_non_finite_total_witness:
  "map_of [(''total_tokens'', JNum NaN), (''input_tokens'', num 10), (''output_tokens'', num 5)]
       ''total_tokens'' = Some (JNum NaN)
   \<and> \<not> finite_number (JNum NaN)
   \<and> calculateTokens (JObj [(''total_tokens'', JNum NaN), (''input_tokens'', num 10),
                             (''output_tokens'', num 5)]) = Inr (num 15)"
  using calculateTokens_ignores_non_finite_total
    [of "[(''total_tokens'', JNum NaN), (''input_tokens'', num 10), (''output_tokens'', num 5)]"
        "JNum NaN"]
  by (simp add: num_def)

section \<open>Properties of the SSE reassembler\<close>

lemma find_skip: "\<forall>x\<in>set ys. \<not> P x \<Longrightarrow> find P (ys @ zs) = find P zs"
  by (induction ys) simp_all

lemma find_none: "\<forall>x\<in>set ys. \<not> P x \<Longrightarrow> find P ys = None"
  by (induction ys) simp_all

lemma lastJsonLine_last:
  assumes "nonempty_lines text = pre @ l # post" and "braced l" and "\<forall>x\<in>set post. \<not> braced x"
  shows "lastJsonLine text = Some l"
  using assms by (simp add: lastJsonLine_def find_skip)

lemma lastJsonLine_none:
  assumes "\<forall>l\<in>set (nonempty_lines text). \<not> braced l"
  shows "lastJsonLine text = None"
  using assms by (simp add: lastJsonLine_def find_none)

text \<open>
  Claim C8, as stated, fails: only the last line that begins with \<open>{\<close> and ends with \<open>}\<close>
  is handed to \<open>JSON.parse\<close>, and when that line is not valid JSON the result is \<open>null\<close>;
  earlier lines are not tried. In the truncated stream below the second line was cut after
  the inner object, so it still ends with \<open>}\<close>: the result is \<open>null\<close>, although the first
  line is a complete JSON object on its own line.
\<close>

theorem parseStreamingResponse_truncated_counterexample:
  \<open>parseStreamingResponse sample_env ''{"a":1}\<newline>{"b":{"c":1}'' = Inr JNull
   \<and> spec_final_object sample_env ''{"a":1}\<newline>{"b":{"c":1}'' = JObj [(''a'', num 1)]\<close>
  by code_simp

text \<open>
  Claim C8, amended: for every accumulated stream text the structured final object is what
  \<open>JSON.parse\<close> gives for the last line that, after trimming, is not empty, begins with
  \<open>{\<close> and ends with \<open>}\<close>; it is \<open>null\<close> when there is no such line and when that line
  is not valid JSON. Deriving it never throws.
\<close>

theorem parseStreamingResponse_last_braced_line:
  "(\<exists>v. parseStreamingResponse E text = Inr v)
   \<and> ((\<forall>l\<in>set (nonempty_lines text). \<not> braced l) \<longrightarrow> parseStreamingResponse E text = Inr JNull)
   \<and> (nonempty_lines text = pre @ l # post \<and> braced l \<and> (\<forall>x\<in>set post. \<not> braced x) \<longrightarrow>
        parseStreamingResponse E text =
          Inr (case JSON_parse E (JStr l) of Inl _ \<Rightarrow> JNull | Inr v \<Rightarrow> v))"
proof -
  have "\<exists>v. parseStreamingResponse E text = Inr v"
    by (simp add: parseStreamingResponse_def split: sum.splits)
  moreover have "parseStreamingResponse E text = Inr JNull"
    if "\<forall>l\<in>set (nonempty_lines text). \<not> braced l"
    using lastJsonLine_none [OF that]
    by (simp add: parseStreamingResponse_def parseStreamingResponse_try_def)
  moreover have "parseStreamingResponse E text =
          Inr (case JSON_parse E (JStr l) of Inl _ \<Rightarrow> JNull | Inr v \<Rightarrow> v)"
    if "nonempty_lines text = pre @ l # post" "braced l" "\<forall>x\<in>set post. \<not> braced x"
    using lastJsonLine_last [OF that]
    by (simp add: parseStreamingResponse_def parseStreamingResponse_try_def split: sum.splits)
  ultimately show ?thesis by blast
qed

theorem parseStreamingResponse_last_braced_line_witness:
  \<open>nonempty_lines ''{"a":1}\<newline>  {"b":2}\<newline>{"c":'' = [''{"a":1}''] @ ''{"b":2}'' # [''{"c":'']
   \<and> braced ''{"b":2}'' \<and> \<not> braced ''{"c":''
   \<and> parseStreamingResponse sample_env ''{"a":1}\<newline>  {"b":2}\<newline>{"c":'' = Inr (JObj [(''b'', num 2)])
   \<and> nonempty_lines ''event: ping\<newline>\<newline>'' = [''event: ping''] \<and> \<not> braced ''event: ping''
   \<and> parseStreamingResponse sample_env ''event: ping\<newline>\<newline>'' = Inr JNull\<close>
proof -
  have shape: \<open>nonempty_lines ''{"a":1}\<newline>  {"b":2}\<newline>{"c":'' = [''{"a":1}''] @ ''{"b":2}'' # [''{"c":'']
      \<and> braced ''{"b":2}'' \<and> \<not> braced ''{"c":''\<close>
    by code_simp
  have parsed: \<open>JSON_parse sample_env (JStr ''{"b":2}'') = Inr (JObj [(''b'', num 2)])\<close>
    by (simp add: sample_env_def sample_parse_def)
  have none: "nonempty_lines ''event: ping\<newline>\<newline>'' = [''event: ping''] \<and> \<not> braced ''event: ping''"
    by code_simp
  from parseStreamingResponse_last_braced_line
         [of sample_env \<open>''{"a":1}\<newline>  {"b":2}\<newline>{"c":''\<close> \<open>[''{"a":1}'']\<close> \<open>''{"b":2}''\<close> \<open>[''{"c":'']\<close>]
       parseStreamingResponse_last_braced_line [of sample_env "''event: ping\<newline>\<newline>''"]
       shape parsed none
  show ?thesis by simp
qed

text \<open>The records are scanned in order, and each usage found replaces the one before.\<close>

lemma scan_records_append:
  "scan_records E (xs @ ys) usage = scan_records E ys (scan_records E xs usage)"
  by (induction xs arbitrary: usage) simp_all

text \<open>
  Claim C3 against the code: \<open>extractUsageFromSSE\<close> keeps the usage of the last record that
  carries one, whatever its kind. For a \<open>message_start\<close> record followed by a
  \<open>message_delta\<close> record (the example of the claim) the derived usage is that of the
  \<open>message_delta\<close> record. For the same two records in the other order the derived usage
  is that of the \<open>message_start\<close> record, although a \<open>message_delta\<close> record carries
  usage.
\<close>

theorem extractUsageFromSSE_last_record_wins:
  "extractUsageFromSSE sample_env (concat sample_chunks) = Inr usage_3_7
   \<and> scan_record sample_env (''event: message_delta\<newline>data: '' @ delta_data) JNull = usage_3_7
   \<and> extractUsageFromSSE sample_env reversed_stream = Inr usage_3_0"
  by code_simp

theorem extractUsageFromSSE_last_record_wins_witness:
  "extractUsageFromSSE sample_env reversed_stream = Inr usage_3_0 \<and> usage_3_0 \<noteq> usage_3_7"
  using extractUsageFromSSE_last_record_wins
  by (simp add: usage_3_0_def usage_3_7_def num_def)

section \<open>Properties of the trace query\<close>

lemma map_of_set_prop:
  "map_of (set_prop kvs k v) k' = (if k' = k then Some v else map_of kvs k')"
  by (induction kvs) auto

lemma full_trace_body:
  "opt_prop (full_trace E st trace) ''body'' = safeParseJSON E (opt_prop trace ''body'')"
  by (simp add: full_trace_def Let_def map_of_set_prop)

lemma full_trace_response_body:
  "selectResponsesByRequest st (opt_prop trace ''id'') = Some r \<Longrightarrow>
   opt_prop (opt_prop (full_trace E st trace) ''response'') ''body'' =
     safeParseJSON E (opt_prop r ''body'')"
  by (simp add: full_trace_def Let_def map_of_set_prop)

text \<open>
  Claim C9, as stated, fails for an empty stored body: the empty text cannot be parsed, and
  the read gives \<open>null\<close> instead of the stored text. (A streamed call whose upstream stream
  was empty stores the empty text as the response body.)
\<close>

theorem safeParseJSON_empty_body_counterexample:
  "map (\<lambda>r. opt_prop r ''body'') (rows empty_stream_store Responses) = [JStr []]
   \<and> JSON_parse sample_env (JStr []) = Inl SyntaxError
   \<and> map (\<lambda>t. opt_prop (opt_prop t ''response'') ''body'')
         (get_traces sample_env JUndefined empty_stream_store) = [JNull]"
  by code_simp

text \<open>
  Claim C9, amended: for every persisted trace whose stored body is a non-empty text that
  cannot be parsed back into structured form, a read through the trace query returns the
  stored text unmodified, for the request body and for the response body; an empty stored
  body is read as \<open>null\<close>. The read returns one trace for every selected request row: it
  does not fail on a malformed stored body.
\<close>

theorem safeParseJSON_keeps_malformed_text:
  "(s \<noteq> [] \<and> JSON_parse E (JStr s) = Inl e \<longrightarrow> safeParseJSON E (JStr s) = JStr s)
   \<and> safeParseJSON E (JStr []) = JNull
   \<and> opt_prop (full_trace E st trace) ''body'' = safeParseJSON E (opt_prop trace ''body'')
   \<and> (selectResponsesByRequest st (opt_prop trace ''id'') = Some r \<longrightarrow>
        opt_prop (opt_prop (full_trace E st trace) ''response'') ''body'' =
          safeParseJSON E (opt_prop r ''body''))
   \<and> length (get_traces E JUndefined st) = length (selectRecentRequests st)
   \<and> length (get_traces E (JStr (c # cs)) st) = length (selectRequestsBySession st (JStr (c # cs)))"
  by (simp add: full_trace_body full_trace_response_body get_traces_def)
     (simp add: safeParseJSON_def)

theorem safeParseJSON_keeps_malformed_text_witness:
  "''not json'' \<noteq> [] \<and> JSON_parse sample_env (JStr ''not json'') = Inl SyntaxError
   \<and> safeParseJSON sample_env (JStr ''not json'') = JStr ''not json''
   \<and> selectResponsesByRequest malformed_store (opt_prop stored_request ''id'') =
        Some stored_malformed_response
   \<and> opt_prop stored_malformed_response ''body'' = JStr ''not json''
   \<and> opt_prop (opt_prop (full_trace sample_env malformed_store stored_request) ''response'') ''body'' =
        JStr ''not json''
   \<and> get_traces sample_env JUndefined malformed_store =
        [full_trace sample_env malformed_store stored_request]"
proof -
  have parse: "JSON_parse sample_env (JStr ''not json'') = Inl SyntaxError"
    by (simp add: sample_env_def sample_parse_def)
  have row: "selectResponsesByRequest malformed_store (opt_prop stored_request ''id'') =
        Some stored_malformed_response
      \<and> opt_prop stored_malformed_response ''body'' = JStr ''not json''"
    by code_simp
  have read: "get_traces sample_env JUndefined malformed_store =
        [full_trace sample_env malformed_store stored_request]"
    by code_simp
  from safeParseJSON_keeps_malformed_text
         [where s = "''not json''" and E = sample_env and e = SyntaxError
            and st = malformed_store and trace = stored_request and r = stored_malformed_response]
       parse row read
  show ?thesis by simp
qed

section \<open>Properties of the capture pipeline\<close>


lemma grows_trans: "grows a b \<Longrightarrow> grows b c \<Longrightarrow> grows a c"
  by (auto simp: grows_def)


lemma grows_calls: "grows a b \<Longrightarrow> calls b c d \<Longrightarrow> calls a c d"
  by (auto simp: calls_def grows_def)

lemma grows_run_insert: "grows a st \<Longrightarrow> grows a (snd (run_insert t row st))"
  by (auto simp: run_insert_def take_outcome_def rolled_back_def grows_def
      split: list.splits option.splits outcome.splits prod.splits)

lemma grows_broadcast: "grows a st \<Longrightarrow> grows a (broadcast m st)"
  by (auto simp: broadcast_def grows_def)

lemma grows_console_error: "grows a st \<Longrightarrow> grows a (console_error l st)"
  by (auto simp: console_error_def grows_def)

lemma grows_Date_now: "grows a st \<Longrightarrow> grows a (snd (Date_now E st))"
  by (simp add: Date_now_def grows_def)

lemma grows_uuidv4: "grows a st \<Longrightarrow> grows a (snd (uuidv4 E st))"
  by (simp add: uuidv4_def grows_def)

lemma grows_tool_seq: "grows a st \<Longrightarrow> grows a (st\<lparr>tool_seq := n\<rparr>)"
  by (simp add: grows_def)

lemma grows_and_then:
  assumes "grows a (snd r)" and "\<And>v s. grows a s \<Longrightarrow> grows a (snd (f v s))"
  shows "grows a (snd (and_then r f))"
proof (cases r)
  case (Pair x s)
  with assms show ?thesis
    by (cases x) (auto simp: and_then_def)
qed

lemma grows_try_catch:
  assumes "grows a (snd r)" and "\<And>e s. grows a s \<Longrightarrow> grows a (snd (h e s))"
  shows "grows a (snd (try_catch r h))"
proof (cases r)
  case (Pair x s)
  with assms show ?thesis
    by (cases x) (auto simp: try_catch_def)
qed

lemmas grows_steps =
  grows_run_insert grows_broadcast grows_console_error grows_Date_now grows_uuidv4
  grows_tool_seq grows_and_then grows_try_catch






lemma grows_persist_request:
  "grows a st \<Longrightarrow> grows a (persist_request E req rid ts st)"
  by (auto simp: persist_request_def intro!: grows_steps)
















lemma post_messages_unfold:
  "post_messages E req st =
     (if truthy (opt_prop (body req) ''stream'') then
        (case fetch E (upstream_call E req) of
           Inl e \<Rightarrow>
             try_catch (handleStreamingRequest E req (JStr (uuid E (uuids st))) (announced E req st))
               (\<lambda>e s. (Inr (proxy_error E e), console_error ''Proxy error:'' s))
         | Inr _ \<Rightarrow> handleStreamingRequest E req (JStr (uuid E (uuids st))) (announced E req st))
      else
        try_catch (handleRegularRequest E req (JStr (uuid E (uuids st))) (announced E req st))
          (\<lambda>e s. (Inr (proxy_error E e), console_error ''Proxy error:'' s)))"
  by (cases "fetch E (upstream_call E req)")
     (simp_all add: post_messages_def announced_def Let_def case_prod_beta uuidv4_def Date_now_def)








section \<open>Properties of the clear operation\<close>

lemma post_clear_success:
  assumes "txn st = None" and "outcomes st = []"
  shows "fst (post_clear E st) = JsonReply 200 (JObj [(''ok'', JBool True)])"
    and "rows (snd (post_clear E st)) t =
           (if t = Sessions
            then [session_row (JStr (uuid E (uuids st))) (num (clock E (ticks st)))]
            else [])"
    and "currentSessionId (snd (post_clear E st)) = JStr (uuid E (uuids st))"
    and "sent (snd (post_clear E st)) = sent st @ [cleared_event]"
    and "txn (snd (post_clear E st)) = None"
    and "outcomes (snd (post_clear E st)) = []"
  using assms
  by (cases t;
      simp add: post_clear_def clear_try_def delete_all_def exec_def exec_done_def take_outcome_def
        and_then_def createSession_def uuidv4_def Date_now_def run_insert_def ignoring_def
        try_catch_def broadcast_def cleared_event_def)+

lemma post_clear_failure:
  assumes "txn st = None" and "outcomes st = replicate k Done @ oc # rest" and "k < 7" and "oc \<noteq> Done"
  shows "post_clear E st =
           (clear_failed, st\<lparr>outcomes := rest, logged := logged st @ [''Failed to clear traces:'']\<rparr>)"
proof -
  from \<open>k < 7\<close> have "k = 0 \<or> k = 1 \<or> k = 2 \<or> k = 3 \<or> k = 4 \<or> k = 5 \<or> k = 6"
    by arith
  then show ?thesis
    using assms(1,2,4)
    by (cases oc)
       (auto simp: post_clear_def clear_try_def delete_all_def exec_def exec_done_def
          take_outcome_def and_then_def ignoring_def try_catch_def console_error_def
          rolled_back_def eval_nat_numeral)
qed

lemma get_traces_no_requests: "rows st Requests = [] \<Longrightarrow> get_traces E sid st = []"
  by (simp add: get_traces_def selectRequestsBySession_def selectRecentRequests_def
      newest_first_def)

text \<open>
  Claim C6: with no storage failure the clear operation empties the four tables, then
  creates a fresh session (the only row left), makes it the active one, broadcasts
  \<open>cleared\<close> and reports success. If a statement of the delete transaction (up to and
  including its \<open>COMMIT\<close>) fails, the operation reports failure and the process is as before
  it, apart from the console line and the used-up storage outcomes: every row is still
  there, no transaction is open, the active session is unchanged and nothing is broadcast.
\<close>

theorem post_clear_all_or_nothing:
  "(txn st = None \<and> outcomes st = [] \<longrightarrow>
      fst (post_clear E st) = JsonReply 200 (JObj [(''ok'', JBool True)])
      \<and> rows (snd (post_clear E st)) ToolCalls = []
      \<and> rows (snd (post_clear E st)) Responses = []
      \<and> rows (snd (post_clear E st)) Requests = []
      \<and> rows (snd (post_clear E st)) Sessions =
          [session_row (JStr (uuid E (uuids st))) (num (clock E (ticks st)))]
      \<and> currentSessionId (snd (post_clear E st)) = JStr (uuid E (uuids st))
      \<and> sent (snd (post_clear E st)) = sent st @ [cleared_event])
   \<and> (txn st = None \<and> outcomes st = replicate k Done @ oc # rest \<and> k < 7 \<and> oc \<noteq> Done \<longrightarrow>
      post_clear E st =
        (clear_failed, st\<lparr>outcomes := rest, logged := logged st @ [''Failed to clear traces:'']\<rparr>)
      \<and> rows (snd (post_clear E st)) = rows st
      \<and> txn (snd (post_clear E st)) = None
      \<and> currentSessionId (snd (post_clear E st)) = currentSessionId st
      \<and> sent (snd (post_clear E st)) = sent st)"
proof -
  have "post_clear E st =
        (clear_failed, st\<lparr>outcomes := rest, logged := logged st @ [''Failed to clear traces:'']\<rparr>)
      \<and> rows (snd (post_clear E st)) = rows st
      \<and> txn (snd (post_clear E st)) = None
      \<and> currentSessionId (snd (post_clear E st)) = currentSessionId st
      \<and> sent (snd (post_clear E st)) = sent st"
    if "txn st = None" "outcomes st = replicate k Done @ oc # rest" "k < 7" "oc \<noteq> Done"
    using post_clear_failure [OF that, of E] that(1) by simp
  then show ?thesis
    by (simp add: post_clear_success)
qed

theorem post_clear_all_or_nothing_witness:
  "txn traced_store = None \<and> outcomes traced_store = []
   \<and> length (rows traced_store Requests) = 1 \<and> length (rows traced_store Responses) = 1
   \<and> fst (post_clear sample_env traced_store) = JsonReply 200 (JObj [(''ok'', JBool True)])
   \<and> rows (snd (post_clear sample_env traced_store)) Requests = []
   \<and> rows (snd (post_clear sample_env traced_store)) Responses = []
   \<and> txn half_failing = None
   \<and> outcomes half_failing = replicate 4 Done @ Failed # []
   \<and> (4::nat) < 7 \<and> Failed \<noteq> Done
   \<and> fst (post_clear sample_env half_failing) = clear_failed
   \<and> rows (snd (post_clear sample_env half_failing)) = rows traced_store"
proof -
  have t: "txn traced_store = None \<and> outcomes traced_store = []
      \<and> length (rows traced_store Requests) = 1 \<and> length (rows traced_store Responses) = 1"
    by code_simp
  have h: "txn half_failing = None \<and> outcomes half_failing = replicate 4 Done @ Failed # []
      \<and> rows half_failing = rows traced_store"
    using t by (simp add: half_failing_def eval_nat_numeral)
  from post_clear_all_or_nothing [of traced_store sample_env]
       post_clear_all_or_nothing [of half_failing sample_env 4 Failed "[]"] t h
  show ?thesis by simp
qed

text \<open>
  Claim C7: with no storage failure, a clear succeeds on whatever store it finds, and so on
  an empty one: it leaves one fresh session, which is the active one, broadcasts \<open>cleared\<close>,
  and a trace query after it returns the empty list. Clearing again gives the same.
\<close>

theorem post_clear_idempotent:
  "txn st = None \<and> outcomes st = [] \<longrightarrow>
     fst (post_clear E st) = JsonReply 200 (JObj [(''ok'', JBool True)])
     \<and> rows (snd (post_clear E st)) Sessions =
         [session_row (currentSessionId (snd (post_clear E st))) (num (clock E (ticks st)))]
     \<and> currentSessionId (snd (post_clear E st)) = JStr (uuid E (uuids st))
     \<and> sent (snd (post_clear E st)) = sent st @ [cleared_event]
     \<and> get_traces E sid (snd (post_clear E st)) = []
     \<and> fst (post_clear E (snd (post_clear E st))) = JsonReply 200 (JObj [(''ok'', JBool True)])
     \<and> sent (snd (post_clear E (snd (post_clear E st)))) = sent st @ [cleared_event, cleared_event]
     \<and> get_traces E sid (snd (post_clear E (snd (post_clear E st)))) = []"
proof
  assume a: "txn st = None \<and> outcomes st = []"
  let ?st1 = "snd (post_clear E st)"
  have b: "txn ?st1 = None" "outcomes ?st1 = []"
    using a by (simp_all add: post_clear_success)
  have "get_traces E sid ?st1 = []"
    using a by (simp add: get_traces_no_requests post_clear_success)
  moreover have "get_traces E sid (snd (post_clear E ?st1)) = []"
    using b by (simp add: get_traces_no_requests post_clear_success)
  ultimately show "fst (post_clear E st) = JsonReply 200 (JObj [(''ok'', JBool True)])
     \<and> rows (snd (post_clear E st)) Sessions =
         [session_row (currentSessionId (snd (post_clear E st))) (num (clock E (ticks st)))]
     \<and> currentSessionId (snd (post_clear E st)) = JStr (uuid E (uuids st))
     \<and> sent (snd (post_clear E st)) = sent st @ [cleared_event]
     \<and> get_traces E sid (snd (post_clear E st)) = []
     \<and> fst (post_clear E (snd (post_clear E st))) = JsonReply 200 (JObj [(''ok'', JBool True)])
     \<and> sent (snd (post_clear E (snd (post_clear E st)))) = sent st @ [cleared_event, cleared_event]
     \<and> get_traces E sid (snd (post_clear E (snd (post_clear E st)))) = []"
    using a b by (simp add: post_clear_success)
qed

theorem post_clear_idempotent_witness:
  "txn (started sample_env) = None \<and> outcomes (started sample_env) = []
   \<and> rows (started sample_env) Requests = []
   \<and> fst (post_clear sample_env (started sample_env)) = JsonReply 200 (JObj [(''ok'', JBool True)])
   \<and> currentSessionId (snd (post_clear sample_env (started sample_env))) = JStr ''uu''
   \<and> sent (snd (post_clear sample_env (started sample_env))) = [cleared_event]
   \<and> get_traces sample_env JUndefined (snd (post_clear sample_env (started sample_env))) = []"
proof -
  have s: "txn (started sample_env) = None \<and> outcomes (started sample_env) = []
     \<and> rows (started sample_env) Requests = [] \<and> sent (started sample_env) = []
     \<and> uuid sample_env (uuids (started sample_env)) = ''uu''"
    by code_simp
  from post_clear_idempotent [of "started sample_env" sample_env JUndefined] s
  show ?thesis by simp
qed

section \<open>Properties of the buffered path\<close>

lemma keeps_run_insert_tool_call: "keeps R st \<Longrightarrow> keeps R (snd (run_insert ToolCalls row st))"
  by (auto simp: run_insert_def take_outcome_def rolled_back_def keeps_def
      split: list.splits outcome.splits prod.splits)

lemma keeps_broadcast: "keeps R st \<Longrightarrow> keeps R (broadcast m st)"
  by (simp add: broadcast_def keeps_def)

lemma keeps_console_error: "keeps R st \<Longrightarrow> keeps R (console_error l st)"
  by (simp add: console_error_def keeps_def)

lemma keeps_Date_now: "keeps R st \<Longrightarrow> keeps R (snd (Date_now E st))"
  by (simp add: Date_now_def keeps_def)

lemma keeps_uuidv4: "keeps R st \<Longrightarrow> keeps R (snd (uuidv4 E st))"
  by (simp add: uuidv4_def keeps_def)

lemma keeps_tool_seq: "keeps R st \<Longrightarrow> keeps R (st\<lparr>tool_seq := n\<rparr>)"
  by (simp add: keeps_def)

lemma keeps_and_then:
  assumes "keeps R (snd r)" and "\<And>v s. keeps R s \<Longrightarrow> keeps R (snd (f v s))"
  shows "keeps R (snd (and_then r f))"
proof (cases r)
  case (Pair x s)
  with assms show ?thesis
    by (cases x) (auto simp: and_then_def)
qed

lemma keeps_try_catch:
  assumes "keeps R (snd r)" and "\<And>e s. keeps R s \<Longrightarrow> keeps R (snd (h e s))"
  shows "keeps R (snd (try_catch r h))"
proof (cases r)
  case (Pair x s)
  with assms show ?thesis
    by (cases x) (auto simp: try_catch_def)
qed

lemmas keeps_steps =
  keeps_run_insert_tool_call keeps_broadcast keeps_console_error keeps_Date_now keeps_uuidv4
  keeps_tool_seq keeps_and_then keeps_try_catch

lemma keeps_store_tool_calls:
  "keeps R st \<Longrightarrow> keeps R (snd (store_tool_calls E rid cs st))"
proof (induction cs arbitrary: st)
  case Nil
  then show ?case by simp
next
  case (Cons content rest)
  show ?case
    using Cons.prems
    by (auto simp: Let_def case_prod_beta intro!: keeps_steps Cons.IH)
qed

lemma keeps_extractAndStoreToolCalls:
  "keeps R st \<Longrightarrow> keeps R (snd (extractAndStoreToolCalls E rid d st))"
  by (simp add: extractAndStoreToolCalls_def keeps_store_tool_calls split: js.splits)

text \<open>
  The buffered path of \<open>src/unnamed/part_000\<close> keeps the token count: when upstream
  answers with a JSON body and the response insert succeeds, the row appended to
  \<open>responses\<close> holds \<open>calculateTokens(responseData?.usage)\<close>, and the last message
  broadcast is the \<open>response\<close> event carrying the upstream body.
\<close>

lemma handleRegularRequest_persists_tokens:
  assumes "fetch E (upstream_call E req) = Inr r" and "json r = Inr d"
    and "txn st = None" and "outcomes st = [] \<or> (\<exists>rest. outcomes st = Done # rest)"
  shows "\<exists>row lat. rows (snd (handleRegularRequest E req rid st)) Responses = rows st Responses @ [row]
           \<and> calculateTokens (opt_prop d ''usage'') = Inr (opt_prop row ''tokens_used'')
           \<and> last (sent (snd (handleRegularRequest E req rid st))) =
               response_event rid d lat (opt_prop row ''tokens_used'')"
proof -
  obtain tokens where tokens: "calculateTokens (opt_prop d ''usage'') = Inr tokens"
    by (simp add: calculateTokens_cases)
  let ?st2 = "(snd (Date_now E st))\<lparr>forwarded := forwarded (snd (Date_now E st)) @ [upstream_call E req]\<rparr>"
  let ?st3 = "snd (Date_now E ?st2)"
  let ?lat = "fst (Date_now E ?st2) - fst (Date_now E st)"
  let ?st5 = "snd (Date_now E (snd (uuidv4 E ?st3)))"
  let ?row = "response_row (fst (uuidv4 E ?st3)) rid (num (fst (Date_now E (snd (uuidv4 E ?st3)))))
                (num (int (status r))) JNull (JSON_stringify E d) (num ?lat) tokens"
  have ins: "fst (run_insert Responses ?row ?st5) = Inr ()
             \<and> keeps (rows st Responses @ [?row]) (snd (run_insert Responses ?row ?st5))"
    using assms(3,4)
    by (auto simp: run_insert_def take_outcome_def keeps_def uuidv4_def Date_now_def)
  have stored: "keeps (rows st Responses @ [?row]) (snd (store_response E rid r d ?lat ?st3))"
  proof -
    obtain s where s: "run_insert Responses ?row ?st5 = (Inr (), s)"
      using ins by (cases "run_insert Responses ?row ?st5") simp
    with ins have "keeps (rows st Responses @ [?row]) s" by simp
    from keeps_extractAndStoreToolCalls [OF this] s tokens show ?thesis
      by (simp add: store_response_def Let_def case_prod_beta and_then_def)
  qed
  have caught: "keeps (rows st Responses @ [?row])
      (snd (try_catch (store_response E rid r d ?lat ?st3)
              (\<lambda>dbError s. (Inr (), console_error ''Database error storing response:'' s))))"
    using stored by (auto intro!: keeps_steps)
  have "rows (snd (handleRegularRequest E req rid st)) Responses = rows st Responses @ [?row]"
    using caught assms(1,2) tokens
    by (simp add: handleRegularRequest_def Let_def case_prod_beta and_then_def keeps_def
        broadcast_def)
  moreover have "opt_prop ?row ''tokens_used'' = tokens"
    by (simp add: response_row_def)
  moreover have "last (sent (snd (handleRegularRequest E req rid st))) =
               response_event rid d ?lat tokens"
    using assms(1,2) tokens
    by (simp add: handleRegularRequest_def Let_def case_prod_beta and_then_def broadcast_def)
  ultimately show ?thesis
    using tokens by metis
qed

text \<open>
  Claim C2 against the code: the buffered path of \<open>src/proxy/server.js\<close> stores
  \<open>responseData?.usage?.output_tokens || 0\<close>. For the upstream body \<open>{"usage":
  {"input_tokens": 10, "output_tokens": 5}}\<close> the persisted token count is 5, while
  \<open>calculateTokens\<close> of the usage is 15, which is what the path of \<open>src/unnamed/part_000\<close>
  stores. Both paths broadcast the upstream body as the structured response.
\<close>

theorem handleRegularRequest_legacy_output_tokens_only:
  "map (\<lambda>row. opt_prop row ''tokens_used'')
     (rows (snd (handleRegularRequest_legacy sample_env sample_request (JStr ''r1'')
                   (started sample_env))) Responses) = [num 5]
   \<and> calculateTokens (opt_prop sample_answer ''usage'') = Inr (num 15)
   \<and> map (\<lambda>row. opt_prop row ''tokens_used'')
       (rows (snd (handleRegularRequest sample_env sample_request (JStr ''r1'')
                     (started sample_env))) Responses) = [num 15]
   \<and> map (\<lambda>m. opt_prop (opt_prop m ''data'') ''response'')
       (sent (snd (handleRegularRequest_legacy sample_env sample_request (JStr ''r1'')
                     (started sample_env)))) = [sample_answer]"
  by code_simp

theorem handleRegularRequest_legacy_output_tokens_only_witness:
  "map (\<lambda>row. opt_prop row ''tokens_used'')
     (rows (snd (handleRegularRequest_legacy sample_env sample_request (JStr ''r1'')
                   (started sample_env))) Responses) = [num 5]
   \<and> calculateTokens (opt_prop sample_answer ''usage'') \<noteq> Inr (num 5)"
  using handleRegularRequest_legacy_output_tokens_only
  by (simp add: num_def)

section \<open>What the traces depend on\<close>

lemma agree_pair: "x = y \<Longrightarrow> same_traces s s' \<Longrightarrow> agree (x, s) (y, s')"
  by (simp add: agree_def)

lemma agree_snd: "agree r r' \<Longrightarrow> same_traces (snd r) (snd r')"
  by (simp add: agree_def)

lemma agree_run_insert: "same_traces s s' \<Longrightarrow> agree (run_insert t row s) (run_insert t row s')"
  by (auto simp: agree_def same_traces_def run_insert_def take_outcome_def rolled_back_def
      split: list.splits option.splits outcome.splits)

lemma same_broadcast: "same_traces s s' \<Longrightarrow> same_traces (broadcast m s) (broadcast m s')"
  by (simp add: same_traces_def broadcast_def)

lemma same_console_error: "same_traces s s' \<Longrightarrow> same_traces (console_error l s) (console_error l s')"
  by (simp add: same_traces_def console_error_def)

lemma same_tool_seq:
  "same_traces s s' \<Longrightarrow> same_traces (s\<lparr>tool_seq := Suc (tool_seq s)\<rparr>) (s'\<lparr>tool_seq := Suc (tool_seq s')\<rparr>)"
  by (simp add: same_traces_def)

lemma agree_Date_now: "same_traces s s' \<Longrightarrow> agree (Date_now E s) (Date_now E s')"
  by (simp add: agree_def same_traces_def Date_now_def)

lemma agree_uuidv4: "same_traces s s' \<Longrightarrow> agree (uuidv4 E s) (uuidv4 E s')"
  by (simp add: agree_def same_traces_def uuidv4_def)

lemma agree_and_then:
  assumes "agree r r'" and "\<And>v s s'. same_traces s s' \<Longrightarrow> agree (f v s) (f' v s')"
  shows "agree (and_then r f) (and_then r' f')"
proof (cases r)
  case r: (Pair x s)
  show ?thesis
  proof (cases r')
    case r': (Pair x' s')
    from assms(1) r r' have "x' = x" "same_traces s s'"
      by (simp_all add: agree_def)
    with assms(2) r r' show ?thesis
      by (cases x) (simp_all add: and_then_def agree_def)
  qed
qed

lemma agree_try_catch:
  assumes "agree r r'" and "\<And>e s s'. same_traces s s' \<Longrightarrow> agree (h e s) (h' e s')"
  shows "agree (try_catch r h) (try_catch r' h')"
proof (cases r)
  case r: (Pair x s)
  show ?thesis
  proof (cases r')
    case r': (Pair x' s')
    from assms(1) r r' have "x' = x" "same_traces s s'"
      by (simp_all add: agree_def)
    with assms(2) r r' show ?thesis
      by (cases x) (simp_all add: try_catch_def agree_def)
  qed
qed

lemma agree_store_tool_calls:
  "same_traces s s' \<Longrightarrow> agree (store_tool_calls E rid cs s) (store_tool_calls E rid cs s')"
proof (induction cs arbitrary: s s')
  case Nil
  then show ?case by (simp add: agree_def)
next
  case (Cons content rest)
  have d: "fst (Date_now E s) = fst (Date_now E s')"
      "same_traces (snd (Date_now E s)) (snd (Date_now E s'))"
    using agree_Date_now [OF Cons.prems, of E] by (simp_all add: agree_def)
  from d(2) have seq: "tool_seq (snd (Date_now E s)) = tool_seq (snd (Date_now E s'))"
    by (simp add: same_traces_def)
  show ?case
    using Cons.prems d seq
    by (auto simp: Let_def case_prod_beta
        intro!: agree_and_then agree_run_insert Cons.IH same_broadcast same_tool_seq)
qed

lemma agree_extractAndStoreToolCalls:
  "same_traces s s' \<Longrightarrow>
   agree (extractAndStoreToolCalls E rid d s) (extractAndStoreToolCalls E rid d s')"
  by (simp add: extractAndStoreToolCalls_def agree_store_tool_calls agree_pair split: js.splits)

lemma agree_store_response:
  assumes "same_traces s s'"
  shows "agree (store_response E rid r d lat s) (store_response E rid r d lat s')"
proof -
  have u: "fst (uuidv4 E s) = fst (uuidv4 E s')" "same_traces (snd (uuidv4 E s)) (snd (uuidv4 E s'))"
    using agree_uuidv4 [OF assms, of E] by (simp_all add: agree_def)
  have d: "fst (Date_now E (snd (uuidv4 E s))) = fst (Date_now E (snd (uuidv4 E s')))"
      "same_traces (snd (Date_now E (snd (uuidv4 E s)))) (snd (Date_now E (snd (uuidv4 E s'))))"
    using agree_Date_now [OF u(2), of E] by (simp_all add: agree_def)
  show ?thesis
    using u d
    by (auto simp: store_response_def Let_def case_prod_beta
        intro!: agree_and_then agree_pair agree_run_insert agree_extractAndStoreToolCalls)
qed

lemma agree_store_stream:
  assumes "same_traces s s'"
  shows "agree (store_stream E rid full lat s) (store_stream E rid full lat s')"
proof -
  have step: "agree (run_insert Responses
                  (response_row (fst (uuidv4 E a)) rid (num (fst (Date_now E (snd (uuidv4 E a)))))
                     (num 200) JNull (JStr full) (num lat) tokens)
                  (snd (Date_now E (snd (uuidv4 E a)))))
               (run_insert Responses
                  (response_row (fst (uuidv4 E b)) rid (num (fst (Date_now E (snd (uuidv4 E b)))))
                     (num 200) JNull (JStr full) (num lat) tokens)
                  (snd (Date_now E (snd (uuidv4 E b)))))"
    if "same_traces a b" for a b tokens
  proof -
    have u: "fst (uuidv4 E a) = fst (uuidv4 E b)" "same_traces (snd (uuidv4 E a)) (snd (uuidv4 E b))"
      using agree_uuidv4 [OF that, of E] by (simp_all add: agree_def)
    have d: "fst (Date_now E (snd (uuidv4 E a))) = fst (Date_now E (snd (uuidv4 E b)))"
        "same_traces (snd (Date_now E (snd (uuidv4 E a)))) (snd (Date_now E (snd (uuidv4 E b))))"
      using agree_Date_now [OF u(2), of E] by (simp_all add: agree_def)
    show ?thesis using u d by (simp add: agree_run_insert)
  qed
  show ?thesis
    using assms
    by (auto simp: store_stream_def Let_def case_prod_beta
        intro!: agree_and_then agree_pair step same_broadcast)
qed

lemma agree_store_stream_failed:
  "same_traces s s' \<Longrightarrow>
   agree (store_stream_failed E rid full lat s) (store_stream_failed E rid full lat s')"
  by (auto simp: store_stream_failed_def
      intro!: agree_and_then agree_pair same_broadcast same_console_error)

text \<open>
  Two requests with the same body whose upstream calls get the same answer: the two
  forwarding paths give the same response and leave the same traces, whatever the headers.
\<close>

lemma same_forwarded:
  "same_traces s s' \<Longrightarrow> same_traces (s\<lparr>forwarded := f\<rparr>) (s'\<lparr>forwarded := f'\<rparr>)"
  by (simp add: same_traces_def)

lemma agree_handleRegularRequest:
  assumes "same_traces s s'"
    and "fetch E (upstream_call E req) = fetch E (upstream_call E req')"
  shows "agree (handleRegularRequest E req rid s) (handleRegularRequest E req' rid s')"
proof -
  let ?s2 = "(snd (Date_now E s))\<lparr>forwarded := forwarded (snd (Date_now E s)) @ [upstream_call E req]\<rparr>"
  let ?s2' = "(snd (Date_now E s'))\<lparr>forwarded := forwarded (snd (Date_now E s')) @ [upstream_call E req']\<rparr>"
  have d: "fst (Date_now E s) = fst (Date_now E s')" "same_traces ?s2 ?s2'"
    using agree_Date_now [OF assms(1), of E] by (simp_all add: agree_def same_forwarded)
  have d2: "fst (Date_now E ?s2) = fst (Date_now E ?s2')"
      "same_traces (snd (Date_now E ?s2)) (snd (Date_now E ?s2'))"
    using agree_Date_now [OF d(2), of E] by (simp_all add: agree_def)
  have stored: "same_traces
      (snd (try_catch (store_response E rid r dat lat (snd (Date_now E ?s2)))
              (\<lambda>dbError s. (Inr (), console_error l s))))
      (snd (try_catch (store_response E rid r dat lat (snd (Date_now E ?s2')))
              (\<lambda>dbError s. (Inr (), console_error l s))))" for r dat lat l
    by (rule agree_snd)
       (auto intro!: agree_try_catch agree_store_response agree_pair same_console_error d2(2))
  show ?thesis
  proof (cases "fetch E (upstream_call E req')")
    case (Inl e)
    with assms(2) d show ?thesis
      by (simp add: handleRegularRequest_def Let_def case_prod_beta agree_def)
  next
    case (Inr r)
    show ?thesis
    proof (cases "json r")
      case (Inl e)
      with Inr assms(2) d show ?thesis
        by (simp add: handleRegularRequest_def Let_def case_prod_beta agree_def)
    next
      case dat: (Inr dat)
      with Inr assms(2) d(1) d2(1) show ?thesis
        by (auto simp: handleRegularRequest_def Let_def case_prod_beta
            intro!: agree_and_then agree_pair same_broadcast stored)
    qed
  qed
qed

lemma agree_handleStreamingRequest:
  assumes "same_traces s s'"
    and "fetch E (upstream_call E req) = fetch E (upstream_call E req')"
  shows "agree (handleStreamingRequest E req rid s) (handleStreamingRequest E req' rid s')"
proof -
  let ?s2 = "(snd (Date_now E s))\<lparr>forwarded := forwarded (snd (Date_now E s)) @ [upstream_call E req]\<rparr>"
  let ?s2' = "(snd (Date_now E s'))\<lparr>forwarded := forwarded (snd (Date_now E s')) @ [upstream_call E req']\<rparr>"
  have d: "fst (Date_now E s) = fst (Date_now E s')" "same_traces ?s2 ?s2'"
    using agree_Date_now [OF assms(1), of E] by (simp_all add: agree_def same_forwarded)
  have d2: "fst (Date_now E ?s2) = fst (Date_now E ?s2')"
      "same_traces (snd (Date_now E ?s2)) (snd (Date_now E ?s2'))"
    using agree_Date_now [OF d(2), of E] by (simp_all add: agree_def)
  show ?thesis
  proof (cases "fetch E (upstream_call E req')")
    case (Inl e)
    with assms(2) d show ?thesis
      by (simp add: handleStreamingRequest_def Let_def case_prod_beta agree_def)
  next
    case (Inr r)
    with assms(2) d(1) d2 show ?thesis
      by (auto simp: handleStreamingRequest_def Let_def case_prod_beta
          intro!: agree_and_then agree_try_catch agree_pair agree_store_stream
            agree_store_stream_failed)
  qed
qed

lemma announced_body: "body req = body req' \<Longrightarrow> announced E req st = announced E req' st"
  by (simp add: announced_def persist_request_def)

lemma same_traces_refl: "same_traces s s"
  by (simp add: same_traces_def)

text \<open>
  The route of \<open>src/unnamed/part_000\<close> keeps the request headers out: the rows of the store and
  the broadcast messages of a captured call are the same for any two requests that have
  the same body and get the same answer from upstream, so they carry nothing of the
  request headers; and the row written for the request has \<open>null\<close> in its \<open>headers\<close> column.
\<close>

lemma post_messages_traces_independent_of_headers:
  assumes "body req = body req'"
    and "fetch E (upstream_call E req) = fetch E (upstream_call E req')"
  shows "fst (post_messages E req st) = fst (post_messages E req' st)"
    and "rows (snd (post_messages E req st)) = rows (snd (post_messages E req' st))"
    and "sent (snd (post_messages E req st)) = sent (snd (post_messages E req' st))"
proof -
  have "agree (post_messages E req st) (post_messages E req' st)"
    using assms announced_body [OF assms(1), of E st]
    by (auto simp: post_messages_unfold split: sum.splits
        intro!: agree_try_catch agree_handleRegularRequest agree_handleStreamingRequest
          agree_pair same_console_error same_traces_refl)
  then show "fst (post_messages E req st) = fst (post_messages E req' st)"
    and "rows (snd (post_messages E req st)) = rows (snd (post_messages E req' st))"
    and "sent (snd (post_messages E req st)) = sent (snd (post_messages E req' st))"
    by (simp_all add: agree_def same_traces_def)
qed

lemma persist_request_headers_null:
  "rows (persist_request E req rid ts st) Requests = rows st Requests
   \<or> rows (persist_request E req rid ts st) Requests = rows (rolled_back st) Requests
   \<or> (\<exists>row. rows (persist_request E req rid ts st) Requests = rows st Requests @ [row]
         \<and> opt_prop row ''headers'' = JNull)"
  by (auto simp: persist_request_def try_catch_def run_insert_def take_outcome_def
      rolled_back_def console_error_def request_row_def
      split: list.splits option.splits outcome.splits)

text \<open>
  Claim C4 against the code: the route of \<open>src/proxy/server.js\<close> stores
  \<open>JSON.stringify(req.headers)\<close> in the \<open>headers\<close> column of the request row. For a call
  with the header \<open>x-api-key: sk-ant-secret\<close> the stored text holds the key, where the
  route of \<open>src/unnamed/part_000\<close> stores \<open>null\<close>.
\<close>

theorem persist_request_legacy_stores_api_key:
  \<open>header (headers sample_request) ''x-api-key'' = JStr ''sk-ant-secret''
   \<and> map (\<lambda>row. opt_prop row ''headers'')
       (rows (persist_request_legacy sample_env sample_request (JStr ''r1'') 1000
                (started sample_env)) Requests) = [JStr ''{"x-api-key":"sk-ant-secret"}'']
   \<and> map (\<lambda>row. opt_prop row ''headers'')
       (rows (persist_request sample_env sample_request (JStr ''r1'') 1000
                (started sample_env)) Requests) = [JNull]\<close>
  by code_simp

theorem persist_request_legacy_stores_api_key_witness:
  \<open>map (\<lambda>row. opt_prop row ''headers'')
     (rows (persist_request_legacy sample_env sample_request (JStr ''r1'') 1000
              (started sample_env)) Requests) = [JStr ''{"x-api-key":"sk-ant-secret"}'']
   \<and> JStr ''{"x-api-key":"sk-ant-secret"}'' \<noteq> JNull\<close>
  using persist_request_legacy_stores_api_key
  by simp

end
